theory Spec2Isabelle
  imports Complex_Main "HOL-Library.Sublist"
begin


section \<open>Strings and numbers of the renderer\<close>

text \<open>
  The renderer (\<^verbatim>\<open>src/renderers/index.ts\<close>) works on JavaScript strings. A string is
  modelled as a list of symbols: a code unit below 256 (\<open>Ch\<close>), a code unit from 256
  upwards (\<open>Uni\<close>, used for the clock glyphs) or one complete styling sequence
  \<^verbatim>\<open>ESC [ n m\<close> as the package chalk writes it (\<open>Sgr n\<close>). The length of a string
  counts code units, so a styling sequence counts with all of its characters.
  Numbers are modelled in exact arithmetic: a duration is a \<open>real\<close>, whole numbers
  are \<open>int\<close>; the rounding of double precision is not part of the model.
\<close>

datatype sym = Ch char | Uni nat | Sgr nat

type_synonym jsstring = "sym list"

abbreviation lit :: "string \<Rightarrow> jsstring" where
  "lit \<equiv> map Ch"

abbreviation space :: sym where
  "space \<equiv> Ch (CHR '' '')"

abbreviation newline :: sym where
  "newline \<equiv> Ch (CHR 0x0A)"

abbreviation colon :: sym where
  "colon \<equiv> Ch (CHR '':'')"

fun natToString :: "nat \<Rightarrow> string" where
  "natToString n =
     (if n < 10 then [''0123456789'' ! n]
      else natToString (n div 10) @ [''0123456789'' ! (n mod 10)])"

declare natToString.simps [simp del]

text \<open>\<^verbatim>\<open>Number.prototype.toString\<close> on a whole number.\<close>

definition toString :: "int \<Rightarrow> jsstring" where
  "toString n =
     (if n < 0 then Ch (CHR ''-'') # lit (natToString (nat (- n)))
      else lit (natToString (nat n)))"

fun units :: "sym \<Rightarrow> nat" where
  "units (Ch c) = 1"
| "units (Uni n) = 1"
| "units (Sgr n) = 3 + length (natToString n)"

text \<open>\<^verbatim>\<open>s.length\<close>\<close>

definition jslength :: "jsstring \<Rightarrow> nat" where
  "jslength s = sum_list (map units s)"

text \<open>\<^verbatim>\<open>s.padStart(n, c)\<close> for a one-character filler.\<close>

definition padStart :: "nat \<Rightarrow> sym \<Rightarrow> jsstring \<Rightarrow> jsstring" where
  "padStart n c s = replicate (n - jslength s) c @ s"

text \<open>\<^verbatim>\<open>c.repeat(n)\<close> for a one-character string; the callers clamp \<open>n\<close> at zero.\<close>

definition repeat :: "sym \<Rightarrow> int \<Rightarrow> jsstring" where
  "repeat c n = replicate (nat n) c"

text \<open>\<^verbatim>\<open>s.split(sep)\<close> for a one-character separator: never empty.\<close>

fun split :: "sym \<Rightarrow> jsstring \<Rightarrow> jsstring list" where
  "split sep [] = [[]]"
| "split sep (c # cs) =
     (if c = sep then [] # split sep cs
      else (case split sep cs of
              [] \<Rightarrow> [[c]]
            | l # ls \<Rightarrow> (c # l) # ls))"

text \<open>\<^verbatim>\<open>xs.join(sep)\<close>\<close>

fun join :: "jsstring \<Rightarrow> jsstring list \<Rightarrow> jsstring" where
  "join sep [] = []"
| "join sep [x] = x"
| "join sep (x # y # ys) = x @ sep @ join sep (y # ys)"

text \<open>The remainder operator \<^verbatim>\<open>%\<close>: the result has the sign of the dividend.\<close>

definition jsrem :: "int \<Rightarrow> int \<Rightarrow> int" where
  "jsrem a b = sgn a * (\<bar>a\<bar> mod \<bar>b\<bar>)"

section \<open>Time and duration formatter\<close>

definition pad2 :: "int \<Rightarrow> jsstring" where
  "pad2 n = padStart 2 (Ch (CHR ''0'')) (toString n)"

definition formatDuration :: "real \<Rightarrow> jsstring" where
  "formatDuration ms =
     (let totalSeconds = \<lceil>ms / 1000\<rceil>;
          seconds = jsrem totalSeconds 60;
          minutes = jsrem (totalSeconds div 60) 60;
          hours = totalSeconds div 3600
      in pad2 hours @ [colon] @ pad2 minutes @ [colon] @ pad2 seconds)"

record date =
  getHours :: int
  getMinutes :: int
  getSeconds :: int

definition formatTime :: "date \<Rightarrow> jsstring" where
  "formatTime d =
     (let hours = getHours d;
          minutes = getMinutes d;
          seconds = getSeconds d
      in pad2 hours @ [colon] @ pad2 minutes @ [colon] @ pad2 seconds)"




text \<open>
  The formatter as the specification words it, for a duration that is not negative:
  the fields are natural numbers, each printed in decimal and filled with zeros on
  the left up to two characters.
\<close>

definition zeroPad2 :: "nat \<Rightarrow> string" where
  "zeroPad2 n = replicate (2 - length (natToString n)) (CHR ''0'') @ natToString n"


text \<open>
  What the block-digit renderer takes for granted about its input: three fields
  between colons, each two characters long.
\<close>

definition threeTwoCharComponents :: "jsstring \<Rightarrow> bool" where
  "threeTwoCharComponents s =
     (case split colon s of
        [h, m, sec] \<Rightarrow> jslength h = 2 \<and> jslength m = 2 \<and> jslength sec = 2
      | _ \<Rightarrow> False)"

section \<open>What the renderer takes from outside\<close>

text \<open>
  The packages figlet, chalk and strip-ansi, the floating-point functions
  \<^verbatim>\<open>Math.sin\<close>, \<^verbatim>\<open>Math.cos\<close> and \<^verbatim>\<open>Math.round\<close>, and the terminal are not part of
  the repository. They are parameters of the model, collected in one record:
  \<^item> \<open>textSync env txt font\<close> is \<^verbatim>\<open>figlet.textSync(txt, { font })\<close>;
  \<^item> \<open>chalk env [s\<^sub>1, \<dots>, s\<^sub>n] txt\<close> is \<^verbatim>\<open>chalk.s1.\<dots>.sn(txt)\<close>;
  \<^item> \<open>roundSin env c a r\<close> is \<^verbatim>\<open>Math.round(c + Math.sin(a) * r)\<close> and
    \<open>roundCos2 env c a r\<close> is \<^verbatim>\<open>Math.round(c + Math.cos(a) * r * 2)\<close>, for an
    angle \<open>a\<close> given by the expression the source computes it from;
  \<^item> \<open>stdoutRows env\<close> and \<open>stdoutColumns env\<close> are \<^verbatim>\<open>process.stdout.rows\<close> and
    \<^verbatim>\<open>process.stdout.columns\<close>, \<open>None\<close> when undefined.
  Nothing is assumed about them except where a theorem says so.
\<close>

datatype style =
  Cyan | BgRed | White | Bold | Yellow | Green | Dim | BgBlack | Gray | Blue | Red

datatype angle =
  Degrees int \<comment> \<open>\<^verbatim>\<open>r * (Math.PI / 180)\<close>\<close>
| HandTurn rat rat \<comment> \<open>\<^verbatim>\<open>(value / total) * 2 * Math.PI - Math.PI / 2\<close>\<close>

record env =
  textSync :: "jsstring \<Rightarrow> jsstring \<Rightarrow> jsstring"
  chalk :: "style list \<Rightarrow> jsstring \<Rightarrow> jsstring"
  roundSin :: "int \<Rightarrow> angle \<Rightarrow> rat \<Rightarrow> int"
  roundCos2 :: "int \<Rightarrow> angle \<Rightarrow> rat \<Rightarrow> int"
  stdoutRows :: "int option"
  stdoutColumns :: "int option"

text \<open>
  \<^verbatim>\<open>stripAnsi(s)\<close>: the string without its styling sequences. In the model a styling
  sequence is one symbol, so stripping is a filter.
\<close>

fun isStyling :: "sym \<Rightarrow> bool" where
  "isStyling (Sgr n) = True"
| "isStyling c = False"

definition stripAnsi :: "jsstring \<Rightarrow> jsstring" where
  "stripAnsi s = filter (\<lambda>c. \<not> isStyling c) s"

text \<open>
  \<^verbatim>\<open>Math.max(...xs)\<close> on a list of lengths. The source applies it to lists that are
  never empty (the parts of a \<^verbatim>\<open>split\<close>), where it is the greatest element.
\<close>

definition mathMax :: "nat list \<Rightarrow> nat" where
  "mathMax xs = fold max xs 0"

section \<open>Terminal size (\<^verbatim>\<open>src/utils/termSize.ts\<close>)\<close>

record termSize =
  rows :: int
  columns :: int

text \<open>\<^verbatim>\<open>x || d\<close> on a number that may be undefined: zero and undefined give \<open>d\<close>.\<close>

definition orDefault :: "int option \<Rightarrow> int \<Rightarrow> int" where
  "orDefault x d = (case x of None \<Rightarrow> d | Some v \<Rightarrow> if v = 0 then d else v)"

definition getSize :: "env \<Rightarrow> termSize" where
  "getSize env =
     \<lparr> rows = orDefault (stdoutRows env) 24,
       columns = orDefault (stdoutColumns env) 80 \<rparr>"

section \<open>Font metrics and their cache\<close>

record FontMetrics =
  blockWidth :: nat
  sepWidth :: nat
  height :: nat

text \<open>
  The two module-level caches, and a log of the calls of \<^verbatim>\<open>figlet.textSync\<close>
  (text and font of each call, in order). The log is not a variable of the program:
  it records the use of the rendering capability, which the specification limits.
  The caches are plain objects used as dictionaries; keys that every object inherits
  (such as \<^verbatim>\<open>constructor\<close>) are not modelled, the keys being names of figlet fonts
  and texts made of digits and colons.
\<close>

record caches =
  fontMetricsCache :: "jsstring \<rightharpoonup> FontMetrics"
  digitCache :: "jsstring \<rightharpoonup> (jsstring \<rightharpoonup> jsstring list)"
  figletLog :: "(jsstring \<times> jsstring) list"

definition emptyCaches :: caches where
  "emptyCaches =
     \<lparr> fontMetricsCache = Map.empty, digitCache = Map.empty, figletLog = [] \<rparr>"

definition figlet :: "env \<Rightarrow> jsstring \<Rightarrow> jsstring \<Rightarrow> caches \<Rightarrow> jsstring \<times> caches" where
  "figlet env txt font st =
     (textSync env txt font, st\<lparr>figletLog := figletLog st @ [(txt, font)]\<rparr>)"

text \<open>The body of the loop \<^verbatim>\<open>for (let i = 0; i <= 59; i++)\<close> of \<open>getFontMetrics\<close>.\<close>

definition measureStep ::
  "env \<Rightarrow> jsstring \<Rightarrow> nat \<Rightarrow> nat \<times> nat \<times> caches \<Rightarrow> nat \<times> nat \<times> caches" where
  "measureStep env font i acc =
     (case acc of (maxBlockWidth, height0, st) \<Rightarrow>
        (let numStr = padStart 2 (Ch (CHR ''0'')) (toString (int i));
             (art, st') = figlet env numStr font st;
             lines = split newline art;
             height' = max height0 (length lines);
             width = mathMax (map jslength lines);
             maxBlockWidth' = max maxBlockWidth width
         in (maxBlockWidth', height', st')))"

definition getFontMetrics :: "env \<Rightarrow> jsstring \<Rightarrow> caches \<Rightarrow> FontMetrics \<times> caches" where
  "getFontMetrics env font st =
     (case fontMetricsCache st font of
        Some cached \<Rightarrow> (cached, st)
      | None \<Rightarrow>
        (let (maxBlockWidth, height0, st1) = fold (measureStep env font) [0..<60] (0, 0, st);
             (sepArt, st2) = figlet env [colon] font st1;
             sepLines = split newline sepArt;
             sepWidth = mathMax (map jslength sepLines);
             height' = max height0 (length sepLines);
             metrics = \<lparr> blockWidth = maxBlockWidth, sepWidth = sepWidth, height = height' \<rparr>
         in (metrics, st2\<lparr>fontMetricsCache := (fontMetricsCache st2)(font \<mapsto> metrics)\<rparr>)))"

section \<open>Block-digit renderer\<close>

definition getCachedBlock ::
  "env \<Rightarrow> jsstring \<Rightarrow> jsstring \<Rightarrow> caches \<Rightarrow> jsstring list \<times> caches" where
  "getCachedBlock env font str st =
     (let st1 = (case digitCache st font of
                   None \<Rightarrow> st\<lparr>digitCache := (digitCache st)(font \<mapsto> Map.empty)\<rparr>
                 | Some d \<Rightarrow> st);
          ofFont = (case digitCache st1 font of None \<Rightarrow> Map.empty | Some d \<Rightarrow> d)
      in case ofFont str of
           Some block \<Rightarrow> (block, st1)
         | None \<Rightarrow>
           (let (art, st2) = figlet env str font st1;
                block = split newline art
            in (block, st2\<lparr>digitCache := (digitCache st2)(font \<mapsto> ofFont(str \<mapsto> block))\<rparr>)))"

text \<open>
  \<^verbatim>\<open>parts[i]\<close>: beyond the end it is \<^verbatim>\<open>undefined\<close>, which both uses (a property key
  and the text given to figlet) turn into the string \<^verbatim>\<open>"undefined"\<close>.
\<close>

definition part :: "jsstring list \<Rightarrow> nat \<Rightarrow> jsstring" where
  "part parts i = (if i < length parts then parts ! i else lit ''undefined'')"

definition padBlockLines :: "FontMetrics \<Rightarrow> jsstring list \<Rightarrow> nat \<Rightarrow> jsstring list" where
  "padBlockLines metrics lines targetWidth =
     map (\<lambda>i.
       let line = (if i < length lines then lines ! i else []);
           padding = max 0 (int targetWidth - int (jslength line));
           leftPad = padding div 2
       in repeat space leftPad @ line @ repeat space (max 0 (padding - leftPad)))
     [0..<height metrics]"

definition getDigitalClock :: "env \<Rightarrow> jsstring \<Rightarrow> jsstring \<Rightarrow> caches \<Rightarrow> jsstring \<times> caches" where
  "getDigitalClock env text font st =
     (let (metrics, st1) = getFontMetrics env font st;
          parts = split colon text;
          (hLines, st2) = getCachedBlock env font (part parts 0) st1;
          (mLines, st3) = getCachedBlock env font (part parts 1) st2;
          (sLines, st4) = getCachedBlock env font (part parts 2) st3;
          (sepLines, st5) = getCachedBlock env font [colon] st4;
          hBlock = padBlockLines metrics hLines (blockWidth metrics);
          mBlock = padBlockLines metrics mLines (blockWidth metrics);
          sBlock = padBlockLines metrics sLines (blockWidth metrics);
          sepBlock = padBlockLines metrics sepLines (sepWidth metrics)
      in (join [newline]
            (map (\<lambda>i. hBlock ! i @ sepBlock ! i @ mBlock ! i @ sepBlock ! i @ sBlock ! i)
               [0..<length hBlock]),
          st5))"

section \<open>Analog-face renderer\<close>

datatype timePoint = DateOf date | NumberOf real

record glyphs =
  dialHour :: jsstring
  dialMinute :: jsstring
  dialOther :: jsstring
  handHour :: jsstring
  handMinute :: jsstring
  handSecond :: jsstring
  center :: jsstring

definition chars :: "bool \<Rightarrow> glyphs" where
  "chars useGlyphs =
     (if useGlyphs
      then \<lparr> dialHour = [Uni 0xF111], dialMinute = [Uni 0xF192], dialOther = [Ch (CHR 0xB7)],
             handHour = [Uni 0x2588], handMinute = [Uni 0xF111], handSecond = [Uni 0xF192],
             center = [Uni 0xF017] \<rparr>
      else \<lparr> dialHour = [Uni 0x25CF], dialMinute = [Uni 0x2022], dialOther = [Ch (CHR 0xB7)],
             handHour = [Uni 0x2588], handMinute = [Uni 0x25CF], handSecond = [Ch (CHR 0xB7)],
             center = [Uni 0x2295] \<rparr>)"

definition radius :: int where "radius = 21"
definition sizeY :: int where "sizeY = 45"
definition sizeX :: int where "sizeX = 90"
definition centerY :: int where "centerY = sizeY div 2"
definition centerX :: int where "centerX = sizeX div 2"

type_synonym board = "jsstring list list"

text \<open>The guard \<^verbatim>\<open>y >= 0 && y < sizeY && x >= 0 && x < sizeX\<close>.\<close>

definition onBoard :: "int \<Rightarrow> int \<Rightarrow> bool" where
  "onBoard y x \<longleftrightarrow> y \<ge> 0 \<and> y < sizeY \<and> x \<ge> 0 \<and> x < sizeX"

text \<open>\<^verbatim>\<open>board[y][x] = v\<close>; every call is behind a guard that keeps it on the board.\<close>

definition setCell :: "board \<Rightarrow> int \<Rightarrow> int \<Rightarrow> jsstring \<Rightarrow> board" where
  "setCell board y x v = board[nat y := (board ! nat y)[nat x := v]]"

text \<open>The hours, minutes and seconds that the hands show.\<close>

definition handValues :: "timePoint \<Rightarrow> bool \<Rightarrow> int \<times> int \<times> int" where
  "handValues dateOrMs isTimer =
     (case (isTimer, dateOrMs) of
        (True, NumberOf ms) \<Rightarrow>
          (let totalSeconds = \<lceil>ms / 1000\<rceil>;
               seconds = jsrem totalSeconds 60;
               minutes = jsrem (totalSeconds div 60) 60;
               hours = jsrem (totalSeconds div 3600) 12
           in (hours, minutes, seconds))
      | (False, DateOf d) \<Rightarrow> (jsrem (getHours d) 12, getMinutes d, getSeconds d)
      | _ \<Rightarrow> (0, 0, 0))"

text \<open>The body of the dial loop, for one angle \<open>r\<close> in degrees.\<close>

definition dialStep :: "env \<Rightarrow> glyphs \<Rightarrow> int \<Rightarrow> board \<Rightarrow> board" where
  "dialStep env cs r board =
     (let y = roundSin env centerY (Degrees r) (of_int radius);
          x = roundCos2 env centerX (Degrees r) (of_int radius)
      in if onBoard y x
         then (if jsrem r 30 = 0 then setCell board y x (chalk env [White, Bold] (dialHour cs))
               else if jsrem r 6 = 0 then setCell board y x (chalk env [Gray] (dialMinute cs))
               else setCell board y x (chalk env [Dim] (dialOther cs)))
         else board)"

text \<open>\<^verbatim>\<open>for (let r = 0; r < 360; r += 2)\<close>\<close>

definition drawDial :: "env \<Rightarrow> glyphs \<Rightarrow> board \<Rightarrow> board" where
  "drawDial env cs board = fold (dialStep env cs) (map (\<lambda>k. 2 * int k) [0..<180]) board"

definition numbers :: "int list" where
  "numbers = [3, 4, 5, 6, 7, 8, 9, 10, 11, 12, 1, 2]"

text \<open>The callback of \<^verbatim>\<open>numbers.forEach((num, i) => \<dots>)\<close>.\<close>

definition numberStep :: "env \<Rightarrow> int \<times> nat \<Rightarrow> board \<Rightarrow> board" where
  "numberStep env numi board =
     (case numi of (num, i) \<Rightarrow>
        (let numR = radius - 2;
             y = roundSin env centerY (Degrees (int i * 30)) (of_int numR);
             x = roundCos2 env centerX (Degrees (int i * 30)) (of_int numR)
         in if onBoard y x
            then (if num > 9
                  then (let board1 = (if x > 0
                                      then setCell board y (x - 1) (toString (num div 10))
                                      else board)
                        in setCell board1 y x (toString (jsrem num 10)))
                  else setCell board y x (toString num))
            else board))"

definition drawNumbers :: "env \<Rightarrow> board \<Rightarrow> board" where
  "drawNumbers env board = fold (numberStep env) (zip numbers [0..<length numbers]) board"

text \<open>
  The values of \<open>r\<close> in \<^verbatim>\<open>for (let r = 0; r <= handLength; r += 0.5)\<close>: the halves
  \<open>0, 1/2, 1, \<dots>\<close> up to \<open>handLength\<close>.
\<close>

definition handSteps :: "rat \<Rightarrow> rat list" where
  "handSteps handLength = map (\<lambda>k. of_nat k / 2) [0..<nat (\<lfloor>2 * handLength\<rfloor> + 1)]"

text \<open>The cells that one hand samples, in the order of the loop.\<close>

definition handPoints :: "env \<Rightarrow> rat \<Rightarrow> rat \<Rightarrow> rat \<Rightarrow> (int \<times> int) list" where
  "handPoints env val total' lengthRatio =
     (let handLength = of_int radius * lengthRatio
      in map (\<lambda>r. (roundSin env centerY (HandTurn val total') r,
                    roundCos2 env centerX (HandTurn val total') r))
           (handSteps handLength))"

definition drawHand ::
  "env \<Rightarrow> board \<Rightarrow> rat \<Rightarrow> rat \<Rightarrow> rat \<Rightarrow> jsstring \<Rightarrow> style list \<Rightarrow> board" where
  "drawHand env board val total' lengthRatio char colorFunc =
     fold (\<lambda>yx b. case yx of (y, x) \<Rightarrow>
             if onBoard y x then setCell b y x (chalk env colorFunc char) else b)
       (handPoints env val total' lengthRatio) board"

text \<open>The grid of \<open>getAnalogClock\<close> after the last write, before it is joined.\<close>

definition analogBoard :: "env \<Rightarrow> timePoint \<Rightarrow> bool \<Rightarrow> bool \<Rightarrow> board" where
  "analogBoard env dateOrMs isTimer useGlyphs =
     (case handValues dateOrMs isTimer of (hours, minutes, seconds) \<Rightarrow>
        (let board0 = replicate (nat sizeY) (replicate (nat sizeX) [space]);
             cs = chars useGlyphs;
             board1 = drawDial env cs board0;
             board2 = drawNumbers env board1;
             board3 = drawHand env board2 (of_int seconds) 60 (9 / 10) (handSecond cs) [Blue];
             board4 = drawHand env board3 (of_int minutes) 60 (3 / 4) (handMinute cs)
                        [Green, Bold];
             board5 = drawHand env board4 (of_int hours + of_int minutes / 60) 12 (1 / 2)
                        (handHour cs) [Red, Bold]
         in setCell board5 centerY centerX (chalk env [White] (center cs))))"

definition getAnalogClock :: "env \<Rightarrow> timePoint \<Rightarrow> bool \<Rightarrow> bool \<Rightarrow> jsstring" where
  "getAnalogClock env dateOrMs isTimer useGlyphs =
     join [newline] (map concat (analogBoard env dateOrMs isTimer useGlyphs))"

section \<open>Layout engine\<close>

text \<open>
  The first half of \<open>render\<close>: the display text and the content block (label, pause
  banner, warning and body), with the style check against the terminal size.
\<close>

definition displayText :: "timePoint \<Rightarrow> jsstring" where
  "displayText data = (case data of NumberOf ms \<Rightarrow> formatDuration ms | DateOf d \<Rightarrow> formatTime d)"

definition isNumber :: "timePoint \<Rightarrow> bool" where
  "isNumber data = (case data of NumberOf ms \<Rightarrow> True | DateOf d \<Rightarrow> False)"

definition renderContent ::
  "env \<Rightarrow> termSize \<Rightarrow> timePoint \<Rightarrow> jsstring \<Rightarrow> jsstring option \<Rightarrow> jsstring \<Rightarrow> bool \<Rightarrow> bool \<Rightarrow>
   caches \<Rightarrow> jsstring \<times> caches" where
  "renderContent env tsize data style label font isPaused useGlyphs st =
     (let isTimer = isNumber data;
          text = displayText data;
          content0 = [];
          content1 = (case label of
                        None \<Rightarrow> content0
                      | Some l \<Rightarrow> if l = [] then content0
                                  else content0 @ chalk env [Cyan] l @ [newline]);
          content2 = (if isPaused
                      then content1 @ chalk env [BgRed, White, Bold] (lit '' PAUSED '') @ [newline]
                      else content1);
          (content3, effectiveStyle, st1) =
            (if style = lit ''digital''
             then (let (metrics, st') = getFontMetrics env font st;
                       requiredWidth = blockWidth metrics * 3 + sepWidth metrics * 2;
                       requiredHeight = height metrics
                   in if columns tsize < int requiredWidth \<or> rows tsize < int requiredHeight + 2
                      then (content2 @ chalk env [Yellow]
                              (lit ''Terminal too small for digital clock with font '' @
                               [Ch (CHR 0x27)] @ font @ [Ch (CHR 0x27)] @ lit '' (needs '' @
                               toString (int requiredWidth) @ lit ''x'' @
                               toString (int requiredHeight) @
                               lit ''), switching to text.'' @ [newline]),
                            lit ''text'', st')
                      else (content2, style, st'))
             else if style = lit ''analog''
             then (if columns tsize < 90 \<or> rows tsize < 45
                   then (content2 @ chalk env [Yellow]
                           (lit ''Terminal too small for large analog clock (needs 90x45), switching to text.'' @
                            [newline]),
                         lit ''text'', st)
                   else (content2, style, st))
             else (content2, style, st))
      in if effectiveStyle = lit ''digital''
         then (let (art, st2) = getDigitalClock env text font st1
               in (content3 @ chalk env [Green] art @
                   chalk env [Dim] ([newline] @ lit ''Font: '' @ font), st2))
         else if effectiveStyle = lit ''analog''
         then (let art = getAnalogClock env data isTimer useGlyphs
               in (content3 @ art @ [newline] @ chalk env [Bold] text, st1))
         else (content3 @ chalk env [Bold, BgBlack, White] (lit ''  '' @ text @ lit ''  ''), st1))"

text \<open>The footer text of \<open>render\<close>.\<close>

definition footerText :: "jsstring \<Rightarrow> bool \<Rightarrow> bool \<Rightarrow> jsstring" where
  "footerText style useGlyphs isTimer =
     (let footerText0 = lit ''q: Quit | d: Digital | a: Analog | t: Text'';
          footerText1 = (if style = lit ''digital'' then footerText0 @ lit '' | f: Cycle Font''
                         else if style = lit ''analog''
                         then footerText0 @ lit '' | g: Glyphs ('' @
                              (if useGlyphs then lit ''ON'' else lit ''OFF'') @ lit '')''
                         else footerText0)
      in if isTimer then footerText1 @ lit '' | r: Reset | space: Start/Pause'' else footerText1)"

text \<open>
  \<open>render\<close>: the frame handed to \<^verbatim>\<open>logUpdate\<close>, and the caches after the call.
\<close>

definition render ::
  "env \<Rightarrow> timePoint \<Rightarrow> jsstring \<Rightarrow> jsstring option \<Rightarrow> jsstring \<Rightarrow> bool \<Rightarrow> bool \<Rightarrow> caches \<Rightarrow>
   jsstring \<times> caches" where
  "render env data style label font isPaused useGlyphs st =
     (let tsize = getSize env;
          isTimer = isNumber data;
          (content, st') = renderContent env tsize data style label font isPaused useGlyphs st;
          lines = split newline content;
          contentHeight = int (length lines);
          lineWidths = map (\<lambda>l. jslength (stripAnsi l)) lines;
          maxContentWidth = int (mathMax lineWidths);
          footer = footerText style useGlyphs isTimer;
          footerHeight = 1;
          topPad = (rows tsize - footerHeight - contentHeight) div 2;
          blockLeftPad = (columns tsize - maxContentWidth) div 2;
          output0 = repeat newline (max 0 topPad);
          output1 = output0 @
            concat (map (\<lambda>(line, lineLen).
                      let relativePad = (maxContentWidth - int lineLen) div 2;
                          totalPad = max 0 (blockLeftPad + relativePad)
                      in repeat space totalPad @ line @ [newline])
                    (zip lines lineWidths));
          usedLines = max 0 topPad + int (length lines);
          bottomPad = rows tsize - footerHeight - usedLines;
          output2 = output1 @ repeat newline (max 0 bottomPad);
          footerPad = (columns tsize - int (jslength (stripAnsi footer))) div 2
      in (output2 @ repeat space (max 0 footerPad) @ chalk env [Dim] footer, st'))"

section \<open>The specification's words, as definitions\<close>

text \<open>
  The metrics of a font as the specification defines them: the art of a text is what
  the rendering capability returns, its lines are cut at line breaks, its width is
  the greatest length of a line and its height the number of lines.
\<close>

definition renderedLines :: "env \<Rightarrow> jsstring \<Rightarrow> jsstring \<Rightarrow> jsstring list" where
  "renderedLines env txt font = split newline (textSync env txt font)"

definition renderedWidth :: "env \<Rightarrow> jsstring \<Rightarrow> jsstring \<Rightarrow> nat" where
  "renderedWidth env txt font = Max (jslength ` set (renderedLines env txt font))"

definition renderedHeight :: "env \<Rightarrow> jsstring \<Rightarrow> jsstring \<Rightarrow> nat" where
  "renderedHeight env txt font = length (renderedLines env txt font)"

definition twoDigit :: "nat \<Rightarrow> jsstring" where
  "twoDigit i = lit (zeroPad2 i)"

definition metrics_spec :: "env \<Rightarrow> jsstring \<Rightarrow> FontMetrics" where
  "metrics_spec env font =
     \<lparr> blockWidth = Max ((\<lambda>i. renderedWidth env (twoDigit i) font) ` {0..59}),
       sepWidth = renderedWidth env [colon] font,
       height = max (Max ((\<lambda>i. renderedHeight env (twoDigit i) font) ` {0..59}))
                    (renderedHeight env [colon] font) \<rparr>"

text \<open>
  The caches hold only what a miss would compute. This is true of the empty caches
  and every function of the renderer keeps it.
\<close>

definition cachesOk :: "env \<Rightarrow> caches \<Rightarrow> bool" where
  "cachesOk env st \<longleftrightarrow>
     (\<forall>font m. fontMetricsCache st font = Some m \<longrightarrow> m = metrics_spec env font) \<and>
     (\<forall>font d str block. digitCache st font = Some d \<longrightarrow> d str = Some block \<longrightarrow>
        block = renderedLines env str font)"

text \<open>The calls of the rendering capability that measuring one font makes.\<close>

definition measureCalls :: "jsstring \<Rightarrow> (jsstring \<times> jsstring) list" where
  "measureCalls font = map (\<lambda>i. (twoDigit i, font)) [0..<60] @ [([colon], font)]"


text \<open>
  The block-digit layout as the specification words it: a row of a component is
  centred in its target width, with half of the padding (rounded down) on the left
  and the rest on the right; a row the art does not have is empty. A line of the
  output is hours, separator, minutes, separator, seconds.
\<close>

definition centerPad_spec :: "nat \<Rightarrow> jsstring \<Rightarrow> jsstring" where
  "centerPad_spec w line =
     (let pad = w - jslength line
      in replicate (pad div 2) space @ line @ replicate (pad - pad div 2) space)"

definition rowOf :: "env \<Rightarrow> jsstring \<Rightarrow> jsstring \<Rightarrow> nat \<Rightarrow> jsstring" where
  "rowOf env font str i =
     (if i < renderedHeight env str font then renderedLines env str font ! i else [])"

definition digitalRow_spec ::
  "env \<Rightarrow> jsstring \<Rightarrow> jsstring \<Rightarrow> jsstring \<Rightarrow> jsstring \<Rightarrow> nat \<Rightarrow> jsstring" where
  "digitalRow_spec env font hh mm ss i =
     (let m = metrics_spec env font
      in centerPad_spec (blockWidth m) (rowOf env font hh i) @
         centerPad_spec (sepWidth m) (rowOf env font [colon] i) @
         centerPad_spec (blockWidth m) (rowOf env font mm i) @
         centerPad_spec (sepWidth m) (rowOf env font [colon] i) @
         centerPad_spec (blockWidth m) (rowOf env font ss i))"

definition digitalArt_spec :: "env \<Rightarrow> jsstring \<Rightarrow> jsstring \<Rightarrow> jsstring" where
  "digitalArt_spec env text font =
     (let parts = split colon text
      in join [newline]
           (map (digitalRow_spec env font (part parts 0) (part parts 1) (part parts 2))
              [0..<height (metrics_spec env font)]))"


text \<open>
  The frame as the specification lays it out, from the terminal size, the lines of
  the content block and the footer text. Lengths are visible lengths; a negative
  count of blank lines or spaces is clamped to zero.
\<close>

definition visibleLength :: "jsstring \<Rightarrow> nat" where
  "visibleLength l = jslength (stripAnsi l)"

definition clamp0 :: "int \<Rightarrow> nat" where
  "clamp0 n = nat (max 0 n)"

definition frame_spec :: "env \<Rightarrow> int \<Rightarrow> int \<Rightarrow> jsstring list \<Rightarrow> jsstring \<Rightarrow> jsstring" where
  "frame_spec env terminalRows terminalColumns lines footer =
     (let contentHeight = int (length lines);
          maxContentWidth = int (Max (visibleLength ` set lines));
          topPad = (terminalRows - 1 - contentHeight) div 2;
          blockLeftPad = (terminalColumns - maxContentWidth) div 2;
          relativePad = (\<lambda>l. (maxContentWidth - int (visibleLength l)) div 2);
          bottomPad = terminalRows - 1 - (topPad + contentHeight);
          footerPad = (terminalColumns - int (visibleLength footer)) div 2
      in replicate (clamp0 topPad) newline @
         concat (map (\<lambda>l. replicate (clamp0 (blockLeftPad + relativePad l)) space @ l @
                           [newline]) lines) @
         replicate (clamp0 bottomPad) newline @
         replicate (clamp0 footerPad) space @ chalk env [Dim] footer)"

text \<open>
  The fit check and the parts of the content block, in the specification's terms.
\<close>

definition fitFails :: "FontMetrics \<Rightarrow> termSize \<Rightarrow> jsstring \<Rightarrow> bool" where
  "fitFails m tsize style =
     (if style = lit ''digital''
      then columns tsize < 3 * int (blockWidth m) + 2 * int (sepWidth m) \<or>
           rows tsize < int (height m) + 2
      else if style = lit ''analog'' then columns tsize < 90 \<or> rows tsize < 45
      else False)"

definition header :: "env \<Rightarrow> jsstring option \<Rightarrow> bool \<Rightarrow> jsstring" where
  "header env label isPaused =
     (case label of None \<Rightarrow> [] | Some l \<Rightarrow> if l = [] then [] else chalk env [Cyan] l @ [newline]) @
     (if isPaused then chalk env [BgRed, White, Bold] (lit '' PAUSED '') @ [newline] else [])"

definition warning :: "env \<Rightarrow> FontMetrics \<Rightarrow> jsstring \<Rightarrow> jsstring \<Rightarrow> jsstring" where
  "warning env m style font =
     (if style = lit ''digital''
      then chalk env [Yellow]
             (lit ''Terminal too small for digital clock with font '' @ [Ch (CHR 0x27)] @ font @
              [Ch (CHR 0x27)] @ lit '' (needs '' @
              toString (3 * int (blockWidth m) + 2 * int (sepWidth m)) @ lit ''x'' @
              toString (int (height m)) @ lit ''), switching to text.'' @ [newline])
      else chalk env [Yellow]
             (lit ''Terminal too small for large analog clock (needs 90x45), switching to text.'' @
              [newline]))"

definition textBody :: "env \<Rightarrow> jsstring \<Rightarrow> jsstring" where
  "textBody env text = chalk env [Bold, BgBlack, White] (lit ''  '' @ text @ lit ''  '')"

definition styleBody :: "env \<Rightarrow> timePoint \<Rightarrow> jsstring \<Rightarrow> jsstring \<Rightarrow> bool \<Rightarrow> jsstring" where
  "styleBody env data style font useGlyphs =
     (if style = lit ''digital''
      then chalk env [Green] (digitalArt_spec env (displayText data) font) @
           chalk env [Dim] ([newline] @ lit ''Font: '' @ font)
      else if style = lit ''analog''
      then getAnalogClock env data (isNumber data) useGlyphs @ [newline] @
           chalk env [Bold] (displayText data)
      else textBody env (displayText data))"


text \<open>
  The grid of the analog face: 45 rows of 90 cells. A cell is a string (a blank, a
  digit or a styled glyph); what shows of it is what is left without the styling.
\<close>

definition wfBoard :: "board \<Rightarrow> bool" where
  "wfBoard b \<longleftrightarrow> length b = 45 \<and> (\<forall>row\<in>set b. length row = 90)"

definition okCell :: "jsstring \<Rightarrow> bool" where
  "okCell c \<longleftrightarrow> length (stripAnsi c) = 1 \<and> newline \<notin> set c"

definition visibleCell :: "jsstring \<Rightarrow> sym" where
  "visibleCell c = hd (stripAnsi c)"

definition gridOk :: "board \<Rightarrow> bool" where
  "gridOk b \<longleftrightarrow> wfBoard b \<and> (\<forall>row\<in>set b. \<forall>c\<in>set row. okCell c)"

text \<open>
  The one thing assumed of chalk where visible text matters: it adds styling
  sequences and nothing else.
\<close>

definition stylingOnly :: "env \<Rightarrow> bool" where
  "stylingOnly env \<longleftrightarrow> (\<forall>sts s. stripAnsi (chalk env sts s) = stripAnsi s)"

text \<open>
  The positions of an output, cut into lines after stripping, that hold a character
  other than the blank.
\<close>

definition nonBlank :: "jsstring \<Rightarrow> (nat \<times> nat) set" where
  "nonBlank out =
     {(y, x). y < length (split newline (stripAnsi out)) \<and>
              x < length (split newline (stripAnsi out) ! y) \<and>
              split newline (stripAnsi out) ! y ! x \<noteq> space}"

text \<open>Two grids with blanks at the same cells.\<close>

definition sameBlanks :: "board \<Rightarrow> board \<Rightarrow> bool" where
  "sameBlanks a b \<longleftrightarrow>
     wfBoard a \<and> wfBoard b \<and>
     (\<forall>y<45. \<forall>x<90. (visibleCell (a ! y ! x) = space) = (visibleCell (b ! y ! x) = space))"

text \<open>
  The states of the caches that the program can be in: it starts with empty caches
  and touches them only through \<open>render\<close>. The terminal may change size between two
  calls; the rendering capability stays the same.
\<close>

inductive reachable :: "env \<Rightarrow> caches \<Rightarrow> bool" for env :: env where
  reachable_start: "reachable env emptyCaches"
| reachable_render:
    "reachable env st \<Longrightarrow> textSync env' = textSync env \<Longrightarrow>
     reachable env (snd (render env' data style label font isPaused useGlyphs st))"

section \<open>The older JavaScript renderer (\<^verbatim>\<open>src/renderers/index.js\<close>)\<close>

text \<open>
  The repository still holds the renderer from before the move to TypeScript. Its
  analog face has no glyph sets, does not check the type of its input, and draws the
  hands in the opposite order: hour, minute, second. Only its grid is modelled, for
  comparison; \<open>None\<close> stands for a call with a number where a date is expected or the
  reverse, which that code does not guard against.
\<close>

definition legacyChars :: glyphs where
  "legacyChars =
     \<lparr> dialHour = lit ''O'', dialMinute = lit ''*'', dialOther = lit ''.'',
       handHour = [Uni 0x2588], handMinute = [Uni 0x25CF], handSecond = lit ''.'',
       center = [Uni 0x2295] \<rparr>"

definition legacyHandValues :: "timePoint \<Rightarrow> bool \<Rightarrow> (int \<times> int \<times> int) option" where
  "legacyHandValues dateOrMs isTimer =
     (case dateOrMs of
        NumberOf ms \<Rightarrow>
          (if isTimer
           then (let totalSeconds = \<lceil>ms / 1000\<rceil>;
                     seconds = jsrem totalSeconds 60;
                     minutes = jsrem (totalSeconds div 60) 60;
                     hours = jsrem (totalSeconds div 3600) 12
                 in Some (hours, minutes, seconds))
           else None)
      | DateOf d \<Rightarrow>
          (if isTimer then None
           else Some (jsrem (getHours d) 12, getMinutes d, getSeconds d)))"

definition legacyAnalogBoard :: "env \<Rightarrow> timePoint \<Rightarrow> bool \<Rightarrow> board option" where
  "legacyAnalogBoard env dateOrMs isTimer =
     (case legacyHandValues dateOrMs isTimer of
        None \<Rightarrow> None
      | Some (hours, minutes, seconds) \<Rightarrow>
          (let board0 = replicate (nat sizeY) (replicate (nat sizeX) [space]);
               board1 = drawDial env legacyChars board0;
               board2 = drawNumbers env board1;
               board3 = drawHand env board2 (of_int hours + of_int minutes / 60) 12 (1 / 2)
                          [Uni 0x2588] [Red, Bold];
               board4 = drawHand env board3 (of_int minutes) 60 (3 / 4) [Uni 0x25CF]
                          [Green, Bold];
               board5 = drawHand env board4 (of_int seconds) 60 (9 / 10) (lit ''.'') [Blue]
           in Some (setCell board5 centerY centerX (chalk env [White] [Uni 0x2295]))))"

section \<open>Sample environments\<close>

text \<open>
  Concrete stand-ins for the outside world, used to run the model on examples.
  \<open>ansiChalk\<close> writes styling sequences the way chalk does on a colour terminal:
  the opening codes, the text with the styles closed before and reopened after each
  line break, the closing codes; the empty string stays empty. \<open>plainChalk\<close> is
  chalk without colour support: the text unchanged.
\<close>

fun sgrOpen :: "style \<Rightarrow> nat" where
  "sgrOpen Cyan = 36" | "sgrOpen BgRed = 41" | "sgrOpen White = 37" | "sgrOpen Bold = 1"
| "sgrOpen Yellow = 33" | "sgrOpen Green = 32" | "sgrOpen Dim = 2" | "sgrOpen BgBlack = 40"
| "sgrOpen Gray = 90" | "sgrOpen Blue = 34" | "sgrOpen Red = 31"

fun sgrClose :: "style \<Rightarrow> nat" where
  "sgrClose BgRed = 49" | "sgrClose BgBlack = 49" | "sgrClose Bold = 22" | "sgrClose Dim = 22"
| "sgrClose c = 39"

definition ansiChalk :: "style list \<Rightarrow> jsstring \<Rightarrow> jsstring" where
  "ansiChalk sts s =
     (if s = [] then []
      else map (Sgr \<circ> sgrOpen) sts @
           concat (map (\<lambda>c. if c = newline
                             then map (Sgr \<circ> sgrClose) (rev sts) @ [newline] @
                                  map (Sgr \<circ> sgrOpen) sts
                             else [c]) s) @
           map (Sgr \<circ> sgrClose) (rev sts))"

definition plainChalk :: "style list \<Rightarrow> jsstring \<Rightarrow> jsstring" where
  "plainChalk sts s = s"

text \<open>
  A coarse geometry that can be computed: sine and cosine replaced by the triangle
  wave through the same zeros and extremes, angles in degrees.
\<close>

definition triSin :: "rat \<Rightarrow> rat" where
  "triSin d =
     (let t = d - 360 * of_int \<lfloor>d / 360\<rfloor>
      in if t \<le> 90 then t / 90 else if t \<le> 270 then (180 - t) / 90 else (t - 360) / 90)"

fun degreesOf :: "angle \<Rightarrow> rat" where
  "degreesOf (Degrees r) = of_int r"
| "degreesOf (HandTurn v t) = v / t * 360 - 90"

definition mathRound :: "rat \<Rightarrow> int" where
  "mathRound x = \<lfloor>x + 1 / 2\<rfloor>"

text \<open>
  Two fonts: one whose art of a text is the text itself, on two lines, and one
  with one line that draws the digit 9 three characters wide and every other
  character as itself.
\<close>

definition twoLineFont :: "jsstring \<Rightarrow> jsstring \<Rightarrow> jsstring" where
  "twoLineFont txt font = txt @ [newline] @ txt"


definition sampleEnv :: env where
  "sampleEnv =
     \<lparr> textSync = twoLineFont,
       chalk = ansiChalk,
       roundSin = (\<lambda>c a r. mathRound (of_int c + triSin (degreesOf a) * r)),
       roundCos2 = (\<lambda>c a r. mathRound (of_int c + triSin (degreesOf a + 90) * r * 2)),
       stdoutRows = Some 50,
       stdoutColumns = Some 100 \<rparr>"

definition smallEnv :: env where
  "smallEnv = sampleEnv \<lparr> chalk := plainChalk, stdoutRows := Some 20, stdoutColumns := Some 40 \<rparr>"


section \<open>Printing and reading numbers\<close>

lemma natToString_nonempty: "natToString n \<noteq> []"
  by (subst natToString.simps) simp

lemma natToString_small: "n < 10 \<Longrightarrow> natToString n = [''0123456789'' ! n]"
  by (subst natToString.simps) simp

lemma natToString_big: "10 \<le> n \<Longrightarrow> natToString n = natToString (n div 10) @ [''0123456789'' ! (n mod 10)]"
  by (subst natToString.simps) simp

lemma digit_nth_cases: "k < 10 \<Longrightarrow> k = 0 \<or> k = 1 \<or> k = 2 \<or> k = 3 \<or> k = 4 \<or> k = 5 \<or> k = 6 \<or> k = 7 \<or> k = 8 \<or> k = (9::nat)"
  by arith


lemma digit_not_colon: "k < 10 \<Longrightarrow> ''0123456789'' ! k \<noteq> CHR '':''"
  using digit_nth_cases [of k] by auto

lemma natToString_no_colon: "CHR '':'' \<notin> set (natToString n)"
proof (induction n rule: natToString.induct)
  case (1 n)
  show ?case
  proof (cases "n < 10")
    case True
    then show ?thesis using digit_not_colon [of n] by (simp add: natToString_small)
  next
    case False
    then show ?thesis using 1 digit_not_colon [of "n mod 10"]
      by (simp add: natToString_big)
  qed
qed

lemma natToString_length_1: "n < 10 \<Longrightarrow> length (natToString n) = 1"
  by (simp add: natToString_small)

lemma natToString_length_2: "10 \<le> n \<Longrightarrow> n < 100 \<Longrightarrow> length (natToString n) = 2"
proof -
  assume a: "10 \<le> n" "n < 100"
  then have "n div 10 < 10" by simp
  then have "length (natToString (n div 10)) = 1" by (rule natToString_length_1)
  then show ?thesis using a(1) by (simp only: natToString_big length_append) simp
qed

lemma natToString_length_ge2: "10 \<le> n \<Longrightarrow> 2 \<le> length (natToString n)"
proof -
  assume a: "10 \<le> n"
  have "1 \<le> length (natToString (n div 10))"
    using natToString_nonempty [of "n div 10"] by (simp add: Suc_le_eq)
  then show ?thesis using a by (simp only: natToString_big length_append) simp
qed

lemma natToString_length_ge3: "100 \<le> n \<Longrightarrow> 3 \<le> length (natToString n)"
proof -
  assume a: "100 \<le> n"
  then have "10 \<le> n div 10" by simp
  then have "2 \<le> length (natToString (n div 10))" by (rule natToString_length_ge2)
  moreover have "10 \<le> n" using a by simp
  ultimately show ?thesis by (simp only: natToString_big length_append) simp
qed

lemma jslength_Nil [simp]: "jslength [] = 0"
  by (simp add: jslength_def)

lemma jslength_Cons [simp]: "jslength (c # s) = units c + jslength s"
  by (simp add: jslength_def)

lemma jslength_lit [simp]: "jslength (lit s) = length s"
  by (induction s) simp_all

lemma jslength_append [simp]: "jslength (a @ b) = jslength a + jslength b"
  by (simp add: jslength_def)

lemma jslength_replicate_Ch [simp]: "jslength (replicate n (Ch c)) = n"
  by (induction n) simp_all




lemma split_no_sep: "sep \<notin> set a \<Longrightarrow> split sep a = [a]"
  by (induction a) auto

lemma split_append_sep: "sep \<notin> set a \<Longrightarrow> split sep (a @ sep # b) = a # split sep b"
  by (induction a) auto

lemma zeroPad2_no_colon: "CHR '':'' \<notin> set (zeroPad2 n)"
  using natToString_no_colon [of n] by (auto simp: zeroPad2_def)

lemma pad2_nonneg: "0 \<le> n \<Longrightarrow> pad2 n = lit (zeroPad2 (nat n))"
  by (simp add: pad2_def padStart_def toString_def zeroPad2_def)


lemma jsrem_nonneg: "0 \<le> a \<Longrightarrow> 0 < b \<Longrightarrow> jsrem a b = a mod b"
  by (cases "a = 0") (simp_all add: jsrem_def)

section \<open>The duration formatter\<close>

lemma zeroPad2_length_lt100: "n < 100 \<Longrightarrow> length (zeroPad2 n) = 2"
proof (cases "n < 10")
  case True
  then show ?thesis by (simp add: zeroPad2_def natToString_length_1)
next
  case False
  assume "n < 100"
  with False have "length (natToString n) = 2" by (simp add: natToString_length_2)
  then show ?thesis by (simp add: zeroPad2_def)
qed

lemma zeroPad2_length_ge100: "100 \<le> n \<Longrightarrow> 3 \<le> length (zeroPad2 n)"
  using natToString_length_ge3 [of n] by (simp add: zeroPad2_def)

lemma zeroPad2_length_2_iff: "length (zeroPad2 n) = 2 \<longleftrightarrow> n < 100"
  using zeroPad2_length_lt100 [of n] zeroPad2_length_ge100 [of n]
  by (cases "n < 100") auto

lemma formatDuration_fields:
  assumes "0 \<le> ms"
  shows "formatDuration ms =
     lit (zeroPad2 (nat \<lceil>ms / 1000\<rceil> div 3600)) @ [colon] @
     lit (zeroPad2 ((nat \<lceil>ms / 1000\<rceil> div 60) mod 60)) @ [colon] @
     lit (zeroPad2 (nat \<lceil>ms / 1000\<rceil> mod 60))"
proof -
  define t where "t = \<lceil>ms / 1000\<rceil>"
  have t0: "0 \<le> t" using assms by (simp add: t_def)
  have s: "jsrem t 60 = t mod 60" using t0 by (simp add: jsrem_nonneg)
  have m: "jsrem (t div 60) 60 = (t div 60) mod 60"
    using t0 by (simp add: jsrem_nonneg pos_imp_zdiv_nonneg_iff)
  have ps: "pad2 (t mod 60) = lit (zeroPad2 (nat t mod 60))"
    using t0 by (simp add: pad2_nonneg nat_mod_distrib)
  have pm: "pad2 ((t div 60) mod 60) = lit (zeroPad2 ((nat t div 60) mod 60))"
    using t0 by (simp add: pad2_nonneg nat_mod_distrib nat_div_distrib pos_imp_zdiv_nonneg_iff)
  have ph: "pad2 (t div 3600) = lit (zeroPad2 (nat t div 3600))"
    using t0 by (simp add: pad2_nonneg nat_div_distrib pos_imp_zdiv_nonneg_iff)
  show ?thesis
    unfolding formatDuration_def Let_def t_def [symmetric]
    by (simp only: s m ps pm ph)
qed


lemma split_three:
  "colon \<notin> set a \<Longrightarrow> colon \<notin> set b \<Longrightarrow> colon \<notin> set c \<Longrightarrow>
   split colon (a @ [colon] @ b @ [colon] @ c) = [a, b, c]"
  by (simp add: split_append_sep split_no_sep)

lemma lit_zeroPad2_no_colon: "colon \<notin> set (lit (zeroPad2 n))"
  using zeroPad2_no_colon [of n] by auto

lemma split_formatDuration:
  assumes "0 \<le> ms"
  shows "split colon (formatDuration ms) =
     [lit (zeroPad2 (nat \<lceil>ms / 1000\<rceil> div 3600)),
      lit (zeroPad2 ((nat \<lceil>ms / 1000\<rceil> div 60) mod 60)),
      lit (zeroPad2 (nat \<lceil>ms / 1000\<rceil> mod 60))]"
  unfolding formatDuration_fields [OF assms]
  by (rule split_three) (rule lit_zeroPad2_no_colon)+





text \<open>
  Claim C10. For a duration \<open>ms \<ge> 0\<close> the output of \<open>formatDuration\<close> has eight
  characters, and is three two-character fields, exactly when
  \<open>\<lceil>ms / 1000\<rceil> < 360000\<close>. From 100 hours on the hours field has three or more
  characters, so the output is no longer of the shape the block-digit renderer
  assumes.
\<close>

theorem formatDuration_shape:
  assumes "0 \<le> ms"
  shows "(jslength (formatDuration ms) = 8 \<longleftrightarrow> \<lceil>ms / 1000\<rceil> < 360000) \<and>
         (threeTwoCharComponents (formatDuration ms) \<longleftrightarrow> \<lceil>ms / 1000\<rceil> < 360000) \<and>
         (360000 \<le> \<lceil>ms / 1000\<rceil> \<longrightarrow> 3 \<le> jslength (hd (split colon (formatDuration ms))))"
proof -
  define c where "c = \<lceil>ms / 1000\<rceil>"
  define t where "t = nat c"
  have "0 \<le> c" using assms by (simp add: c_def)
  then have t: "c < 360000 \<longleftrightarrow> t div 3600 < 100"
    by (simp add: t_def div_less_iff_less_mult nat_less_iff)
  have m: "length (zeroPad2 ((t div 60) mod 60)) = 2" by (simp add: zeroPad2_length_lt100)
  have s: "length (zeroPad2 (t mod 60)) = 2" by (simp add: zeroPad2_length_lt100)
  have len: "jslength (formatDuration ms) = length (zeroPad2 (t div 3600)) + 6"
    unfolding formatDuration_fields [OF assms] c_def [symmetric] t_def [symmetric]
    by (simp add: m s)
  have sp: "split colon (formatDuration ms) =
     [lit (zeroPad2 (t div 3600)), lit (zeroPad2 ((t div 60) mod 60)), lit (zeroPad2 (t mod 60))]"
    unfolding t_def c_def by (rule split_formatDuration [OF assms])
  have 1: "jslength (formatDuration ms) = 8 \<longleftrightarrow> c < 360000"
    using zeroPad2_length_2_iff [of "t div 3600"] by (simp add: len t)
  have 2: "threeTwoCharComponents (formatDuration ms) \<longleftrightarrow> c < 360000"
    by (simp add: threeTwoCharComponents_def sp m s t zeroPad2_length_2_iff)
  have 3: "360000 \<le> c \<longrightarrow> 3 \<le> jslength (hd (split colon (formatDuration ms)))"
    using t zeroPad2_length_ge100 [of "t div 3600"] by (auto simp add: sp)
  show ?thesis unfolding c_def [symmetric] using 1 2 3 by blast
qed

theorem formatDuration_shape_witness:
  "(0::real) \<le> 360000000 \<and> \<not> \<lceil>(360000000::real) / 1000\<rceil> < 360000 \<and>
   jslength (formatDuration 360000000) \<noteq> 8 \<and>
   \<not> threeTwoCharComponents (formatDuration 360000000) \<and>
   3 \<le> jslength (hd (split colon (formatDuration 360000000))) \<and>
   (0::real) \<le> 359999000 \<and> \<lceil>(359999000::real) / 1000\<rceil> < 360000 \<and>
   jslength (formatDuration 359999000) = 8 \<and>
   threeTwoCharComponents (formatDuration 359999000)"
  using formatDuration_shape [of 360000000] formatDuration_shape [of 359999000] by simp

section \<open>Splitting and joining\<close>

lemma split_nonempty: "split sep s \<noteq> []"
  by (induction s) (auto split: list.splits)


lemma split_join:
  "rs \<noteq> [] \<Longrightarrow> \<forall>r\<in>set rs. sep \<notin> set r \<Longrightarrow> split sep (join [sep] rs) = rs"
proof (induction rs rule: induct_list012)
  case 1
  then show ?case by simp
next
  case (2 x)
  then show ?case by (simp add: split_no_sep)
next
  case (3 x y ys)
  then show ?case by (simp add: split_append_sep)
qed

lemma mathMax_Max: "xs \<noteq> [] \<Longrightarrow> mathMax xs = Max (set xs)"
proof -
  assume ne: "xs \<noteq> []"
  have "mathMax xs = Max (set (0 # xs))"
    unfolding mathMax_def by (rule Max.set_eq_fold [symmetric])
  also have "\<dots> = Max (set xs)" using ne by (simp add: max_def)
  finally show ?thesis .
qed

lemma fold_max_Max: "fold max (map f [0..<Suc n]) (0::nat) = Max (f ` {0..n})"
proof -
  have "fold max (map f [0..<Suc n]) 0 = Max (set (0 # map f [0..<Suc n]))"
    by (rule Max.set_eq_fold [symmetric])
  also have "set (0 # map f [0..<Suc n]) = insert 0 (f ` {0..n})"
    by (simp only: list.set set_map set_upt atLeastLessThanSuc_atLeastAtMost)
  also have "Max (insert 0 (f ` {0..n})) = Max (f ` {0..n})"
    by (subst Max_insert) (simp_all add: max_def)
  finally show ?thesis .
qed

section \<open>The metrics cache\<close>

lemma pad2_twoDigit: "pad2 (int i) = twoDigit i"
  by (simp add: pad2_nonneg twoDigit_def)

lemma mathMax_rendered:
  "mathMax (map jslength (split newline (textSync env txt font))) = renderedWidth env txt font"
  by (simp add: mathMax_Max split_nonempty renderedWidth_def renderedLines_def)

lemma mathMax_renderedLines:
  "mathMax (map jslength (renderedLines env txt font)) = renderedWidth env txt font"
  by (simp add: mathMax_Max split_nonempty renderedWidth_def renderedLines_def)

lemma fold_measureStep:
  "fold (measureStep env font) is (w, h, st) =
     (fold max (map (\<lambda>i. renderedWidth env (twoDigit i) font) is) w,
      fold max (map (\<lambda>i. renderedHeight env (twoDigit i) font) is) h,
      st\<lparr>figletLog := figletLog st @ map (\<lambda>i. (twoDigit i, font)) is\<rparr>)"
proof (induction "is" arbitrary: w h st)
  case Nil
  then show ?case by simp
next
  case (Cons i "is")
  have step: "measureStep env font i (w, h, st) =
      (max w (renderedWidth env (twoDigit i) font),
       max h (renderedHeight env (twoDigit i) font),
       st\<lparr>figletLog := figletLog st @ [(twoDigit i, font)]\<rparr>)"
    by (simp add: measureStep_def figlet_def Let_def pad2_def [symmetric] pad2_twoDigit
        mathMax_rendered renderedHeight_def renderedLines_def max.commute)
  show ?case by (simp add: step Cons.IH max.commute)
qed

lemma getFontMetrics_hit:
  "fontMetricsCache st font = Some m \<Longrightarrow> getFontMetrics env font st = (m, st)"
  by (simp add: getFontMetrics_def)

lemma fold_max_Max_60: "fold max (map f [0..<60]) (0::nat) = Max (f ` {0..59})"
proof -
  have "Suc 59 = 60" by simp
  with fold_max_Max [of f 59] show ?thesis by (simp only:)
qed

lemma getFontMetrics_miss:
  assumes "fontMetricsCache st font = None"
  shows "getFontMetrics env font st =
     (metrics_spec env font,
      st\<lparr>figletLog := figletLog st @ measureCalls font,
         fontMetricsCache := (fontMetricsCache st)(font \<mapsto> metrics_spec env font)\<rparr>)"
  unfolding getFontMetrics_def
  by (simp add: assms fold_measureStep figlet_def Let_def mathMax_renderedLines metrics_spec_def
      measureCalls_def renderedHeight_def [symmetric] renderedLines_def [symmetric]
      fold_max_Max_60 del: upt_rec_numeral)

lemma cachesOk_empty: "cachesOk env emptyCaches"
  by (simp add: cachesOk_def emptyCaches_def)

lemma cachesOk_getFontMetrics:
  assumes "cachesOk env st"
  shows "cachesOk env (snd (getFontMetrics env font st))"
proof (cases "fontMetricsCache st font")
  case None
  then show ?thesis using assms by (auto simp: getFontMetrics_miss cachesOk_def)
next
  case (Some m)
  then show ?thesis using assms by (simp add: getFontMetrics_hit)
qed

lemma getFontMetrics_value:
  assumes "cachesOk env st"
  shows "fst (getFontMetrics env font st) = metrics_spec env font"
proof (cases "fontMetricsCache st font")
  case None
  then show ?thesis by (simp add: getFontMetrics_miss)
next
  case (Some m)
  then show ?thesis using assms by (simp add: getFontMetrics_hit cachesOk_def)
qed

lemma getFontMetrics_again:
  assumes "cachesOk env st"
  shows "getFontMetrics env font (snd (getFontMetrics env font st)) =
           (metrics_spec env font, snd (getFontMetrics env font st))"
proof (cases "fontMetricsCache st font")
  case None
  then show ?thesis by (simp add: getFontMetrics_miss getFontMetrics_hit)
next
  case (Some m)
  then show ?thesis using assms by (simp add: getFontMetrics_hit cachesOk_def)
qed

text \<open>
  Claim C6. In a state whose caches hold only what a miss would compute (every state
  that the program reaches is one, see \<open>reachable_cachesOk\<close>),
  \<open>getFontMetrics\<close> returns the metrics of the specification: \<open>blockWidth\<close> is the
  greatest rendered width over the two-digit strings 00 to 59, \<open>sepWidth\<close> the rendered
  width of the separator and \<open>height\<close> the greatest rendered height over all of them,
  separator included. A second call with the same font returns the same metrics and
  leaves the state, and with it the log of calls of the rendering capability,
  unchanged. A first call on a miss renders 00 to 59 and the separator, each once; on
  a hit it renders nothing.
\<close>

theorem getFontMetrics_cached:
  assumes "cachesOk env st"
  shows "fst (getFontMetrics env font st) = metrics_spec env font \<and>
         getFontMetrics env font (snd (getFontMetrics env font st)) =
           (metrics_spec env font, snd (getFontMetrics env font st)) \<and>
         (fontMetricsCache st font = None \<longrightarrow>
            figletLog (snd (getFontMetrics env font st)) = figletLog st @ measureCalls font) \<and>
         (fontMetricsCache st font \<noteq> None \<longrightarrow> snd (getFontMetrics env font st) = st) \<and>
         cachesOk env (snd (getFontMetrics env font st))"
  using assms
  by (auto simp: getFontMetrics_value getFontMetrics_again cachesOk_getFontMetrics
      getFontMetrics_miss getFontMetrics_hit)

theorem getFontMetrics_cached_witness:
  "cachesOk sampleEnv emptyCaches \<and>
   fontMetricsCache emptyCaches (lit ''Standard'') = None \<and>
   fst (getFontMetrics sampleEnv (lit ''Standard'') emptyCaches) =
     metrics_spec sampleEnv (lit ''Standard'') \<and>
   getFontMetrics sampleEnv (lit ''Standard'')
     (snd (getFontMetrics sampleEnv (lit ''Standard'') emptyCaches)) =
     (metrics_spec sampleEnv (lit ''Standard''),
      snd (getFontMetrics sampleEnv (lit ''Standard'') emptyCaches)) \<and>
   figletLog (snd (getFontMetrics sampleEnv (lit ''Standard'') emptyCaches)) =
     figletLog emptyCaches @ measureCalls (lit ''Standard'')"
proof -
  have e: "fontMetricsCache emptyCaches (lit ''Standard'') = None"
    by (simp add: emptyCaches_def)
  show ?thesis
    using getFontMetrics_cached [OF cachesOk_empty, of sampleEnv "lit ''Standard''"] e
      cachesOk_empty [of sampleEnv]
    by simp
qed

section \<open>The block-digit renderer\<close>

lemma getCachedBlock_value:
  assumes "cachesOk env st"
  shows "fst (getCachedBlock env font str st) = renderedLines env str font"
  using assms
  by (auto simp: getCachedBlock_def cachesOk_def figlet_def Let_def renderedLines_def
      split: option.splits)

lemma cachesOk_getCachedBlock:
  assumes "cachesOk env st"
  shows "cachesOk env (snd (getCachedBlock env font str st))"
  using assms
  by (auto simp: getCachedBlock_def cachesOk_def figlet_def Let_def renderedLines_def
      split: option.splits if_splits)

lemma repeat_int [simp]: "repeat c (int n) = replicate n c"
  by (simp add: repeat_def)

lemma padBlockLines_spec:
  "padBlockLines m ls w =
     map (\<lambda>i. centerPad_spec w (if i < length ls then ls ! i else [])) [0..<height m]"
proof -
  have pad: "repeat space (max 0 (int w - int l) div 2) @ line @
             repeat space (max 0 (max 0 (int w - int l) - max 0 (int w - int l) div 2)) =
             replicate ((w - l) div 2) space @ line @
             replicate ((w - l) - (w - l) div 2) space" for l line
  proof -
    have a: "max 0 (int w - int l) = int (w - l)" by simp
    have b: "int (w - l) div 2 = int ((w - l) div 2)" by simp
    have c: "max 0 (int (w - l) - int ((w - l) div 2)) = int ((w - l) - (w - l) div 2)"
      by simp
    show ?thesis by (simp only: a b c repeat_int)
  qed
  show ?thesis
    unfolding padBlockLines_def centerPad_spec_def Let_def by (simp only: pad)
qed

lemma getDigitalClock_value:
  assumes "cachesOk env st"
  shows "fst (getDigitalClock env text font st) = digitalArt_spec env text font"
proof -
  let ?m = "metrics_spec env font"
  let ?h = "height ?m"
  have rows: "map (\<lambda>i. map f [0..<?h] ! i @ map g [0..<?h] ! i @ map f' [0..<?h] ! i @
                      map g [0..<?h] ! i @ map f'' [0..<?h] ! i) [0..<?h] =
              map (\<lambda>i. f i @ g i @ f' i @ g i @ f'' i) [0..<?h]"
    for f g f' f'' :: "nat \<Rightarrow> jsstring"
    by (rule map_cong) simp_all
  show ?thesis
    using assms
    unfolding getDigitalClock_def digitalArt_spec_def
    by (simp add: split_beta Let_def getFontMetrics_value cachesOk_getFontMetrics
        getCachedBlock_value cachesOk_getCachedBlock padBlockLines_spec rows
        digitalRow_spec_def [abs_def] rowOf_def renderedHeight_def cong: if_cong)
qed

lemma cachesOk_getDigitalClock:
  assumes "cachesOk env st"
  shows "cachesOk env (snd (getDigitalClock env text font st))"
  using assms unfolding getDigitalClock_def
  by (simp add: split_beta Let_def cachesOk_getFontMetrics cachesOk_getCachedBlock)















section \<open>The layout engine\<close>

lemma zip_map_self: "zip xs (map f xs) = map (\<lambda>x. (x, f x)) xs"
  by (induction xs) simp_all

lemma repeat_clamp0: "repeat c (max 0 n) = replicate (clamp0 n) c"
  by (simp add: repeat_def clamp0_def)

lemma bottom_pad_clamped:
  "clamp0 (r - 1 - (max 0 ((r - 1 - h) div 2) + h)) = clamp0 (r - 1 - ((r - 1 - h) div 2 + h))"
  unfolding clamp0_def by (rule arg_cong [where f = nat]) linarith

lemma mathMax_visible:
  "int (mathMax (map (\<lambda>l. jslength (stripAnsi l)) (split newline c))) =
   int (Max (visibleLength ` set (split newline c)))"
  by (simp add: mathMax_Max split_nonempty visibleLength_def [abs_def] image_image)

lemma render_frame_eq:
  "fst (render env data style label font isPaused useGlyphs st) =
     frame_spec env (rows (getSize env)) (columns (getSize env))
       (split newline
          (fst (renderContent env (getSize env) data style label font isPaused useGlyphs st)))
       (footerText style useGlyphs (isNumber data))"
  unfolding render_def frame_spec_def
  by (simp add: split_beta Let_def zip_map_self repeat_clamp0 bottom_pad_clamped
      mathMax_visible visibleLength_def o_def)


lemma render_ends_with_footer:
  "suffix (chalk env [Dim] (footerText style useGlyphs (isNumber data)))
     (fst (render env data style label font isPaused useGlyphs st))"
  unfolding render_frame_eq frame_spec_def Let_def
  by (simp only: append_assoc [symmetric]) (rule suffixI, rule refl)

lemma cachesOk_renderContent:
  assumes "cachesOk env st"
  shows "cachesOk env (snd (renderContent env tsize data style label font isPaused useGlyphs st))"
  using assms unfolding renderContent_def
  by (simp add: split_beta Let_def cachesOk_getFontMetrics cachesOk_getDigitalClock)

lemma cachesOk_render:
  assumes "cachesOk env st"
  shows "cachesOk env (snd (render env data style label font isPaused useGlyphs st))"
  using assms unfolding render_def
  by (simp add: split_beta Let_def cachesOk_renderContent)

lemma lit_digital_neq [simp]:
  "lit ''digital'' \<noteq> lit ''analog''" "lit ''digital'' \<noteq> lit ''text''"
  "lit ''analog'' \<noteq> lit ''text''" "lit ''text'' \<noteq> lit ''digital''"
  "lit ''text'' \<noteq> lit ''analog''" "lit ''analog'' \<noteq> lit ''digital''"
  by simp_all

lemma required_width: "int (blockWidth m * 3 + sepWidth m * 2) = 3 * int (blockWidth m) + 2 * int (sepWidth m)"
  by simp

lemma renderContent_value:
  assumes "cachesOk env st"
  shows "fst (renderContent env tsize data style label font isPaused useGlyphs st) =
     header env label isPaused @
     (if fitFails (metrics_spec env font) tsize style
      then warning env (metrics_spec env font) style font @ textBody env (displayText data)
      else styleBody env data style font useGlyphs)"
proof -
  have hd: "(if isPaused
       then (case label of None \<Rightarrow> []
             | Some l \<Rightarrow> if l = [] then [] else [] @ chalk env [Cyan] l @ [newline]) @
            chalk env [BgRed, White, Bold] (lit '' PAUSED '') @ [newline]
       else (case label of None \<Rightarrow> []
             | Some l \<Rightarrow> if l = [] then [] else [] @ chalk env [Cyan] l @ [newline])) =
      header env label isPaused"
    by (simp add: header_def split: option.splits)
  consider (digital) "style = lit ''digital''" | (analog) "style = lit ''analog''"
    | (other) "style \<noteq> lit ''digital''" "style \<noteq> lit ''analog''" by blast
  then show ?thesis
  proof cases
    case digital
    show ?thesis
      using assms unfolding renderContent_def Let_def hd digital
      by (simp add: split_beta getFontMetrics_value cachesOk_getFontMetrics
          getDigitalClock_value fitFails_def warning_def textBody_def styleBody_def
          required_width del: of_nat_add of_nat_mult)
  next
    case analog
    show ?thesis
      using assms unfolding renderContent_def Let_def hd analog
      by (simp add: split_beta fitFails_def warning_def textBody_def styleBody_def)
  next
    case other
    show ?thesis
      using assms other unfolding renderContent_def Let_def hd
      by (simp add: split_beta fitFails_def warning_def textBody_def styleBody_def
          getDigitalClock_value)
  qed
qed

lemma footer_cases:
  "footerText style useGlyphs isTimer =
     lit ''q: Quit | d: Digital | a: Analog | t: Text'' @
     (if style = lit ''digital'' then lit '' | f: Cycle Font''
      else if style = lit ''analog''
      then (if useGlyphs then lit '' | g: Glyphs (ON)'' else lit '' | g: Glyphs (OFF)'')
      else []) @
     (if isTimer then lit '' | r: Reset | space: Start/Pause'' else [])"
  by (simp add: footerText_def Let_def)

lemma footer_prefix:
  "prefix (lit ''q: Quit | d: Digital | a: Analog | t: Text'') (footerText style useGlyphs isTimer)"
  unfolding footer_cases by (rule prefixI) simp

lemma footer_font_hint:
  "sublist (lit ''| f: Cycle Font'') (footerText style useGlyphs isTimer) \<longleftrightarrow>
   style = lit ''digital''"
  unfolding footer_cases
  by (cases "style = lit ''digital''"; cases "style = lit ''analog''"; cases useGlyphs;
      cases isTimer; simp only: if_True if_False; code_simp)

lemma footer_glyphs_on:
  "sublist (lit ''| g: Glyphs (ON)'') (footerText style useGlyphs isTimer) \<longleftrightarrow>
   style = lit ''analog'' \<and> useGlyphs"
  unfolding footer_cases
  by (cases "style = lit ''digital''"; cases "style = lit ''analog''"; cases useGlyphs;
      cases isTimer; simp only: if_True if_False; code_simp)

lemma footer_glyphs_off:
  "sublist (lit ''| g: Glyphs (OFF)'') (footerText style useGlyphs isTimer) \<longleftrightarrow>
   style = lit ''analog'' \<and> \<not> useGlyphs"
  unfolding footer_cases
  by (cases "style = lit ''digital''"; cases "style = lit ''analog''"; cases useGlyphs;
      cases isTimer; simp only: if_True if_False; code_simp)

lemma footer_timer_hint:
  "sublist (lit ''| r: Reset | space: Start/Pause'') (footerText style useGlyphs isTimer) \<longleftrightarrow>
   isTimer"
  unfolding footer_cases
  by (cases "style = lit ''digital''"; cases "style = lit ''analog''"; cases useGlyphs;
      cases isTimer; simp only: if_True if_False; code_simp)

text \<open>
  Claim C2, as amended. The content block that \<open>render\<close> lays out is the header
  followed, when the requested style fails its fit check, by the warning and the
  Text-style body, and otherwise by the body of the requested style with no warning.
  Digital fails exactly when the columns are fewer than
  \<open>3 * blockWidth + 2 * sepWidth\<close> or the rows fewer than \<open>height + 2\<close>, Analog exactly
  when the columns are fewer than 90 or the rows fewer than 45, and no other style
  fails. On a terminal of 40 columns and 20 rows Analog always fails; Digital fails
  there exactly when \<open>3 * blockWidth + 2 * sepWidth > 40\<close> or \<open>height > 18\<close> for the
  font.
\<close>

theorem render_degrades:
  assumes "cachesOk env st"
  shows "fst (render env data style label font isPaused useGlyphs st) =
           frame_spec env (rows (getSize env)) (columns (getSize env))
             (split newline
                (header env label isPaused @
                 (if fitFails (metrics_spec env font) (getSize env) style
                  then warning env (metrics_spec env font) style font @
                       textBody env (displayText data)
                  else styleBody env data style font useGlyphs)))
             (footerText style useGlyphs (isNumber data)) \<and>
         (fitFails (metrics_spec env font) (getSize env) style \<longleftrightarrow>
            (style = lit ''digital'' \<and>
             (columns (getSize env) <
                3 * int (blockWidth (metrics_spec env font)) +
                2 * int (sepWidth (metrics_spec env font)) \<or>
              rows (getSize env) < int (height (metrics_spec env font)) + 2)) \<or>
            (style = lit ''analog'' \<and>
             (columns (getSize env) < 90 \<or> rows (getSize env) < 45))) \<and>
         (columns (getSize env) = 40 \<and> rows (getSize env) = 20 \<longrightarrow>
            fitFails (metrics_spec env font) (getSize env) (lit ''analog'') \<and>
            (fitFails (metrics_spec env font) (getSize env) (lit ''digital'') \<longleftrightarrow>
               40 < 3 * int (blockWidth (metrics_spec env font)) +
                    2 * int (sepWidth (metrics_spec env font)) \<or>
               18 < int (height (metrics_spec env font))))"
proof (intro conjI impI)
  show "fst (render env data style label font isPaused useGlyphs st) =
           frame_spec env (rows (getSize env)) (columns (getSize env))
             (split newline
                (header env label isPaused @
                 (if fitFails (metrics_spec env font) (getSize env) style
                  then warning env (metrics_spec env font) style font @
                       textBody env (displayText data)
                  else styleBody env data style font useGlyphs)))
             (footerText style useGlyphs (isNumber data))"
    by (simp only: render_frame_eq renderContent_value [OF assms])
  show "fitFails (metrics_spec env font) (getSize env) style \<longleftrightarrow>
            (style = lit ''digital'' \<and>
             (columns (getSize env) <
                3 * int (blockWidth (metrics_spec env font)) +
                2 * int (sepWidth (metrics_spec env font)) \<or>
              rows (getSize env) < int (height (metrics_spec env font)) + 2)) \<or>
            (style = lit ''analog'' \<and>
             (columns (getSize env) < 90 \<or> rows (getSize env) < 45))"
    by (simp add: fitFails_def)
next
  assume "columns (getSize env) = 40 \<and> rows (getSize env) = 20"
  then show "fitFails (metrics_spec env font) (getSize env) (lit ''analog'')"
    by (simp add: fitFails_def)
next
  assume a: "columns (getSize env) = 40 \<and> rows (getSize env) = 20"
  have "(20::int) < int h + 2 \<longleftrightarrow> 18 < int h" for h by linarith
  with a show "fitFails (metrics_spec env font) (getSize env) (lit ''digital'') \<longleftrightarrow>
               40 < 3 * int (blockWidth (metrics_spec env font)) +
                    2 * int (sepWidth (metrics_spec env font)) \<or>
               18 < int (height (metrics_spec env font))"
    by (simp add: fitFails_def)
qed

theorem render_degrades_witness:
  "cachesOk smallEnv emptyCaches \<and>
   columns (getSize smallEnv) = 40 \<and> rows (getSize smallEnv) = 20 \<and>
   fitFails (metrics_spec smallEnv (lit ''Standard'')) (getSize smallEnv) (lit ''analog'') \<and>
   fst (render smallEnv (NumberOf 65000) (lit ''analog'') None (lit ''Standard'') False False
          emptyCaches) =
     frame_spec smallEnv 20 40
       (split newline
          (warning smallEnv (metrics_spec smallEnv (lit ''Standard'')) (lit ''analog'')
             (lit ''Standard'') @
           textBody smallEnv (lit ''00:01:05'')))
       (footerText (lit ''analog'') False True)"
proof -
  have sz: "columns (getSize smallEnv) = 40 \<and> rows (getSize smallEnv) = 20"
    by (simp add: getSize_def smallEnv_def sampleEnv_def orDefault_def)
  have t: "displayText (NumberOf 65000) = lit ''00:01:05''"
    using formatDuration_fields [of 65000]
    by (simp add: displayText_def zeroPad2_def natToString_small)
  show ?thesis
    using render_degrades [OF cachesOk_empty, of smallEnv "NumberOf 65000" "lit ''analog''" None
        "lit ''Standard''" False False] sz cachesOk_empty [of smallEnv] t
    by (simp add: header_def isNumber_def)
qed

text \<open>
  The claim C2 as first stated also says that on a terminal of 40 columns and 20 rows a
  request for Digital always ends in the Text body with the warning. With a small
  font it does not: here the art of a digit pair is two characters wide and two
  lines high, 8 columns and 2 rows are needed, and the block-digit body is drawn with
  no warning.
\<close>

theorem render_small_terminal_counterexample:
  "getSize smallEnv = \<lparr>rows = 20, columns = 40\<rparr> \<and>
   fst (getFontMetrics smallEnv (lit ''Standard'') emptyCaches) =
     \<lparr>blockWidth = 2, sepWidth = 1, height = 2\<rparr> \<and>
   fst (renderContent smallEnv (getSize smallEnv)
          (DateOf \<lparr>getHours = 10, getMinutes = 0, getSeconds = 0\<rparr>)
          (lit ''digital'') None (lit ''Standard'') False False emptyCaches) =
     lit ''10:00:00'' @ [newline] @ lit ''10:00:00'' @ [newline] @ lit ''Font: Standard'' \<and>
   split newline
     (fst (render smallEnv (DateOf \<lparr>getHours = 10, getMinutes = 0, getSeconds = 0\<rparr>)
             (lit ''digital'') None (lit ''Standard'') False False emptyCaches)) =
     replicate 8 [] @
     [lit ''                10:00:00'', lit ''                10:00:00'',
      lit ''             Font: Standard''] @
     replicate 8 [] @
     [lit ''q: Quit | d: Digital | a: Analog | t: Text | f: Cycle Font'']"
proof -
  have a: "getSize smallEnv = \<lparr>rows = 20, columns = 40\<rparr>"
    by code_simp
  have b: "fst (getFontMetrics smallEnv (lit ''Standard'') emptyCaches) =
     \<lparr>blockWidth = 2, sepWidth = 1, height = 2\<rparr>"
    by code_simp
  have c: "fst (renderContent smallEnv (getSize smallEnv)
          (DateOf \<lparr>getHours = 10, getMinutes = 0, getSeconds = 0\<rparr>)
          (lit ''digital'') None (lit ''Standard'') False False emptyCaches) =
     lit ''10:00:00'' @ [newline] @ lit ''10:00:00'' @ [newline] @ lit ''Font: Standard''"
    by code_simp
  have d: "split newline
     (fst (render smallEnv (DateOf \<lparr>getHours = 10, getMinutes = 0, getSeconds = 0\<rparr>)
             (lit ''digital'') None (lit ''Standard'') False False emptyCaches)) =
     replicate 8 [] @
     [lit ''                10:00:00'', lit ''                10:00:00'',
      lit ''             Font: Standard''] @
     replicate 8 [] @
     [lit ''q: Quit | d: Digital | a: Analog | t: Text | f: Cycle Font'']"
    by code_simp
  show ?thesis using a b c d by (intro conjI)
qed

text \<open>
  Claim C3. The frame that \<open>render\<close> emits is the layout of the specification:
  \<open>topPad = (rows - 1 - contentHeight) div 2\<close> blank lines, clamped at zero; each
  content line after \<open>max 0 (blockLeftPad + relativePad)\<close> spaces, where
  \<open>blockLeftPad = (columns - maxContentWidth) div 2\<close> and
  \<open>relativePad = (maxContentWidth - visible length of the line) div 2\<close>; then
  \<open>rows - 1 - (topPad + contentHeight)\<close> blank lines, clamped at zero; then the
  footer after \<open>(columns - visible length of the footer) div 2\<close> spaces, clamped at
  zero. (The source clamps \<open>topPad\<close> before it computes the bottom padding; by
  \<open>bottom_pad_clamped\<close> the count of blank lines is the same either way.)
\<close>

theorem render_frame:
  "fst (render env data style label font isPaused useGlyphs st) =
     frame_spec env (rows (getSize env)) (columns (getSize env))
       (split newline
          (fst (renderContent env (getSize env) data style label font isPaused useGlyphs st)))
       (footerText style useGlyphs (isNumber data))"
proof -
  let ?lines = "split newline
     (fst (renderContent env (getSize env) data style label font isPaused useGlyphs st))"
  have width: "int (mathMax (map (\<lambda>l. jslength (stripAnsi l)) ?lines)) =
               int (Max (visibleLength ` set ?lines))"
    by (rule mathMax_visible)
  have each: "zip ?lines (map (\<lambda>l. jslength (stripAnsi l)) ?lines) =
              map (\<lambda>l. (l, jslength (stripAnsi l))) ?lines"
    by (rule zip_map_self)
  have bottom: "clamp0 (r - 1 - (max 0 ((r - 1 - h) div 2) + h)) =
                clamp0 (r - 1 - ((r - 1 - h) div 2 + h))" for r h
    by (rule bottom_pad_clamped)
  show ?thesis
    unfolding render_def frame_spec_def
    by (simp add: split_beta Let_def each width bottom repeat_clamp0 visibleLength_def o_def)
qed

text \<open>
  Claim C4. The frame of \<open>render\<close> ends with the footer text, dimmed. The footer text
  starts with the four fixed hints; it contains the font hint exactly when the
  requested style is digital, the glyph hint with ON or OFF (as the flag says)
  exactly when the requested style is analog, and the reset and pause hints exactly
  when the input is a duration. The terminal size, and with it a downgrade of the
  body, has no part in it.
\<close>

theorem render_footer:
  "suffix (chalk env [Dim] (footerText style useGlyphs (isNumber data)))
     (fst (render env data style label font isPaused useGlyphs st)) \<and>
   prefix (lit ''q: Quit | d: Digital | a: Analog | t: Text'')
     (footerText style useGlyphs (isNumber data)) \<and>
   (sublist (lit ''| f: Cycle Font'') (footerText style useGlyphs (isNumber data)) \<longleftrightarrow>
      style = lit ''digital'') \<and>
   (sublist (lit ''| g: Glyphs (ON)'') (footerText style useGlyphs (isNumber data)) \<longleftrightarrow>
      style = lit ''analog'' \<and> useGlyphs) \<and>
   (sublist (lit ''| g: Glyphs (OFF)'') (footerText style useGlyphs (isNumber data)) \<longleftrightarrow>
      style = lit ''analog'' \<and> \<not> useGlyphs) \<and>
   (sublist (lit ''| r: Reset | space: Start/Pause'')
      (footerText style useGlyphs (isNumber data)) \<longleftrightarrow> isNumber data)"
  by (intro conjI render_ends_with_footer footer_prefix footer_font_hint footer_glyphs_on
      footer_glyphs_off footer_timer_hint)

section \<open>The analog face: the grid\<close>

lemma onBoard_nat: "onBoard y x \<longleftrightarrow> 0 \<le> y \<and> 0 \<le> x \<and> nat y < 45 \<and> nat x < 90"
  by (auto simp: onBoard_def sizeY_def sizeX_def)

lemma onBoard_int [simp]: "onBoard (int y) (int x) \<longleftrightarrow> y < 45 \<and> x < 90"
  by (simp add: onBoard_def sizeY_def sizeX_def)

lemma wfBoard_row: "wfBoard b \<Longrightarrow> y < 45 \<Longrightarrow> length (b ! y) = 90"
  by (simp add: wfBoard_def)

lemma wfBoard_setCell: "wfBoard b \<Longrightarrow> wfBoard (setCell b y x v)"
proof -
  assume wf: "wfBoard b"
  have "length row = 90" if "row \<in> set (b[nat y := (b ! nat y)[nat x := v]])" for row
  proof -
    from that have "row \<in> insert ((b ! nat y)[nat x := v]) (set b)"
      using set_update_subset_insert by fastforce
    then show ?thesis
    proof
      assume r: "row = (b ! nat y)[nat x := v]"
      show ?thesis
      proof (cases "nat y < length b")
        case True
        then show ?thesis using wf r by (simp add: wfBoard_def)
      next
        case False
        then have "b[nat y := (b ! nat y)[nat x := v]] = b" by (simp add: list_update_beyond)
        with that show ?thesis using wf by (simp add: wfBoard_def)
      qed
    next
      assume "row \<in> set b"
      then show ?thesis using wf by (simp add: wfBoard_def)
    qed
  qed
  then show ?thesis using wf by (simp add: wfBoard_def setCell_def)
qed

lemma setCell_nth:
  assumes "wfBoard b" "onBoard y x" "y' < 45" "x' < 90"
  shows "setCell b y x v ! y' ! x' = (if y' = nat y \<and> x' = nat x then v else b ! y' ! x')"
proof -
  from assms(2) have y: "nat y < 45" and x: "nat x < 90" by (simp_all add: onBoard_nat)
  have lb: "length b = 45" using assms(1) by (simp add: wfBoard_def)
  have lr: "length (b ! nat y) = 90" using assms(1) y by (rule wfBoard_row)
  show ?thesis
  proof (cases "y' = nat y")
    case True
    then show ?thesis using lb lr y x assms(4) by (simp add: setCell_def nth_list_update)
  next
    case False
    then show ?thesis using lb assms(3) by (simp add: setCell_def nth_list_update)
  qed
qed

lemma wfBoard_fold:
  assumes "\<And>p b. wfBoard b \<Longrightarrow> wfBoard (f p b)" and "wfBoard b"
  shows "wfBoard (fold f ps b)"
  using assms(2) by (induction ps arbitrary: b) (simp_all add: assms(1))

lemma wfBoard_blank: "wfBoard (replicate (nat sizeY) (replicate (nat sizeX) [space]))"
  by (simp add: wfBoard_def sizeY_def sizeX_def)

lemma wfBoard_dialStep: "wfBoard b \<Longrightarrow> wfBoard (dialStep env cs r b)"
  by (simp add: dialStep_def Let_def wfBoard_setCell)

lemma wfBoard_drawDial: "wfBoard b \<Longrightarrow> wfBoard (drawDial env cs b)"
  unfolding drawDial_def by (rule wfBoard_fold) (rule wfBoard_dialStep)

lemma wfBoard_numberStep: "wfBoard b \<Longrightarrow> wfBoard (numberStep env ni b)"
  by (cases ni) (simp add: numberStep_def Let_def wfBoard_setCell)

lemma wfBoard_drawNumbers: "wfBoard b \<Longrightarrow> wfBoard (drawNumbers env b)"
  unfolding drawNumbers_def by (rule wfBoard_fold) (rule wfBoard_numberStep)

text \<open>Plotting one value at a list of points: the value shows at every point plotted.\<close>

lemma plot_nth:
  assumes "wfBoard b" "y < 45" "x < 90"
  shows "fold (\<lambda>yx b. case yx of (y, x) \<Rightarrow> if onBoard y x then setCell b y x v else b) pts b
           ! y ! x =
         (if (int y, int x) \<in> set pts then v else b ! y ! x)"
  using assms(1)
proof (induction pts arbitrary: b)
  case Nil
  then show ?case by simp
next
  case (Cons p ps)
  obtain py px where p: "p = (py, px)" by (cases p)
  let ?b = "if onBoard py px then setCell b py px v else b"
  have wf: "wfBoard ?b" using Cons.prems by (simp add: wfBoard_setCell)
  have here: "?b ! y ! x = (if (int y, int x) = (py, px) then v else b ! y ! x)"
  proof (cases "onBoard py px")
    case True
    then have "0 \<le> py" "0 \<le> px" by (simp_all add: onBoard_nat)
    then have "(y = nat py \<and> x = nat px) \<longleftrightarrow> (int y, int x) = (py, px)" by auto
    then show ?thesis using True setCell_nth [OF Cons.prems True assms(2,3), of v] by simp
  next
    case False
    then have "(int y, int x) \<noteq> (py, px)" using assms(2,3) by auto
    with False show ?thesis by auto
  qed
  show ?case using Cons.IH [OF wf] here by (auto simp: p)
qed

lemma wfBoard_plot:
  "wfBoard b \<Longrightarrow>
   wfBoard (fold (\<lambda>yx b. case yx of (y, x) \<Rightarrow> if onBoard y x then setCell b y x v else b) pts b)"
  by (rule wfBoard_fold) (auto simp: wfBoard_setCell)

lemma drawHand_nth:
  assumes "wfBoard b" "y < 45" "x < 90"
  shows "drawHand env b val total' lengthRatio char colorFunc ! y ! x =
         (if (int y, int x) \<in> set (handPoints env val total' lengthRatio)
          then chalk env colorFunc char else b ! y ! x)"
  unfolding drawHand_def by (rule plot_nth [OF assms])

lemma wfBoard_drawHand:
  "wfBoard b \<Longrightarrow> wfBoard (drawHand env b val total' lengthRatio char colorFunc)"
  unfolding drawHand_def by (rule wfBoard_plot)

lemma center_onBoard: "onBoard centerY centerX"
  by (simp add: onBoard_def centerY_def centerX_def sizeY_def sizeX_def)

lemma analogBoard_cell:
  assumes "y < 45" "x < 90"
  shows "analogBoard env dateOrMs isTimer useGlyphs ! y ! x =
     (case handValues dateOrMs isTimer of (hours, minutes, seconds) \<Rightarrow>
        if (int y, int x) = (centerY, centerX) then chalk env [White] (center (chars useGlyphs))
        else if (int y, int x) \<in> set (handPoints env (of_int hours + of_int minutes / 60) 12 (1 / 2))
        then chalk env [Red, Bold] (handHour (chars useGlyphs))
        else if (int y, int x) \<in> set (handPoints env (of_int minutes) 60 (3 / 4))
        then chalk env [Green, Bold] (handMinute (chars useGlyphs))
        else if (int y, int x) \<in> set (handPoints env (of_int seconds) 60 (9 / 10))
        then chalk env [Blue] (handSecond (chars useGlyphs))
        else drawNumbers env
               (drawDial env (chars useGlyphs)
                  (replicate (nat sizeY) (replicate (nat sizeX) [space]))) ! y ! x)"
proof -
  obtain hours minutes seconds where hv: "handValues dateOrMs isTimer = (hours, minutes, seconds)"
    by (cases "handValues dateOrMs isTimer")
  let ?cs = "chars useGlyphs"
  let ?b2 = "drawNumbers env (drawDial env ?cs
               (replicate (nat sizeY) (replicate (nat sizeX) [space])))"
  let ?b3 = "drawHand env ?b2 (of_int seconds) 60 (9 / 10) (handSecond ?cs) [Blue]"
  let ?b4 = "drawHand env ?b3 (of_int minutes) 60 (3 / 4) (handMinute ?cs) [Green, Bold]"
  let ?b5 = "drawHand env ?b4 (of_int hours + of_int minutes / 60) 12 (1 / 2) (handHour ?cs)
               [Red, Bold]"
  have w2: "wfBoard ?b2" by (intro wfBoard_drawNumbers wfBoard_drawDial wfBoard_blank)
  have w3: "wfBoard ?b3" using w2 by (rule wfBoard_drawHand)
  have w4: "wfBoard ?b4" using w3 by (rule wfBoard_drawHand)
  have w5: "wfBoard ?b5" using w4 by (rule wfBoard_drawHand)
  have c: "(y = nat centerY \<and> x = nat centerX) \<longleftrightarrow> (int y, int x) = (centerY, centerX)"
    by (auto simp: centerY_def centerX_def sizeY_def sizeX_def)
  have "analogBoard env dateOrMs isTimer useGlyphs = setCell ?b5 centerY centerX (chalk env [White] (center ?cs))"
    by (simp add: analogBoard_def hv Let_def)
  then show ?thesis
    unfolding hv
    by (simp only: setCell_nth [OF w5 center_onBoard assms] c drawHand_nth [OF w4 assms]
        drawHand_nth [OF w3 assms] drawHand_nth [OF w2 assms] prod.case)
qed

lemma wfBoard_analogBoard: "wfBoard (analogBoard env dateOrMs isTimer useGlyphs)"
  by (cases "handValues dateOrMs isTimer")
    (simp add: analogBoard_def Let_def wfBoard_setCell wfBoard_drawHand wfBoard_drawNumbers
      wfBoard_drawDial wfBoard_blank)


text \<open>
  Claim C7. The hands are drawn second, minute, hour, and the centre last. So in the
  finished grid, for every time point and every cell on the board: the centre cell
  holds the centre glyph; any other cell that the hour hand samples holds the hour
  glyph, whatever else was drawn there; a cell that only the minute and second hands
  sample holds the minute glyph; a cell that only the second hand samples holds the
  second glyph; and every other cell is as the dial and the numerals left it.
\<close>

theorem analog_hand_precedence:
  assumes "y < 45" and "x < 90"
  shows "analogBoard env dateOrMs isTimer useGlyphs ! y ! x =
     (case handValues dateOrMs isTimer of (hours, minutes, seconds) \<Rightarrow>
        if (int y, int x) = (centerY, centerX) then chalk env [White] (center (chars useGlyphs))
        else if (int y, int x) \<in> set (handPoints env (of_int hours + of_int minutes / 60) 12 (1 / 2))
        then chalk env [Red, Bold] (handHour (chars useGlyphs))
        else if (int y, int x) \<in> set (handPoints env (of_int minutes) 60 (3 / 4))
        then chalk env [Green, Bold] (handMinute (chars useGlyphs))
        else if (int y, int x) \<in> set (handPoints env (of_int seconds) 60 (9 / 10))
        then chalk env [Blue] (handSecond (chars useGlyphs))
        else drawNumbers env
               (drawDial env (chars useGlyphs)
                  (replicate (nat sizeY) (replicate (nat sizeX) [space]))) ! y ! x)"
  using assms by (rule analogBoard_cell)

theorem analog_hand_precedence_witness:
  "(22::nat) < 45 \<and> (45::nat) < 90 \<and> (21::nat) < 45 \<and>
   (21, 45) \<in> set (handPoints sampleEnv 0 12 (1 / 2)) \<and>
   (21, 45) \<in> set (handPoints sampleEnv 0 60 (3 / 4)) \<and>
   (21, 45) \<in> set (handPoints sampleEnv 0 60 (9 / 10)) \<and>
   analogBoard sampleEnv (DateOf \<lparr>getHours = 12, getMinutes = 0, getSeconds = 0\<rparr>) False False
     ! 22 ! 45 = chalk sampleEnv [White] [Uni 0x2295] \<and>
   analogBoard sampleEnv (DateOf \<lparr>getHours = 12, getMinutes = 0, getSeconds = 0\<rparr>) False False
     ! 21 ! 45 = chalk sampleEnv [Red, Bold] [Uni 0x2588]"
proof -
  have hv: "handValues (DateOf \<lparr>getHours = 12, getMinutes = 0, getSeconds = 0\<rparr>) False = (0, 0, 0)"
    by (simp add: handValues_def jsrem_def)
  have h: "(21, 45) \<in> set (handPoints sampleEnv 0 12 (1 / 2))" by code_simp
  have m: "(21, 45) \<in> set (handPoints sampleEnv 0 60 (3 / 4))" by code_simp
  have s: "(21, 45) \<in> set (handPoints sampleEnv 0 60 (9 / 10))" by code_simp
  have c: "centerY = 22" "centerX = 45" by (simp_all add: centerY_def centerX_def sizeY_def sizeX_def)
  show ?thesis
    using analog_hand_precedence [of 22 45 sampleEnv
        "DateOf \<lparr>getHours = 12, getMinutes = 0, getSeconds = 0\<rparr>" False False]
      analog_hand_precedence [of 21 45 sampleEnv
        "DateOf \<lparr>getHours = 12, getMinutes = 0, getSeconds = 0\<rparr>" False False]
      h m s
    by (simp add: hv c chars_def)
qed

section \<open>The analog face: what shows\<close>

lemma stripAnsi_Nil [simp]: "stripAnsi [] = []"
  by (simp add: stripAnsi_def)

lemma stripAnsi_Cons [simp]:
  "stripAnsi (c # s) = (if isStyling c then stripAnsi s else c # stripAnsi s)"
  by (simp add: stripAnsi_def)

lemma stripAnsi_append [simp]: "stripAnsi (a @ b) = stripAnsi a @ stripAnsi b"
  by (simp add: stripAnsi_def)

lemma stripAnsi_concat: "stripAnsi (concat xs) = concat (map stripAnsi xs)"
  by (induction xs) simp_all

lemma stripAnsi_newline [simp]: "stripAnsi [newline] = [newline]"
  by (simp add: stripAnsi_def)

lemma stripAnsi_join: "stripAnsi (join [newline] rs) = join [newline] (map stripAnsi rs)"
  by (induction rs rule: induct_list012) simp_all

lemma units_not_styling: "\<not> isStyling c \<Longrightarrow> units c = 1"
  by (cases c) simp_all

lemma jslength_stripAnsi: "jslength (stripAnsi s) = length (stripAnsi s)"
  by (induction s) (simp_all add: stripAnsi_def units_not_styling)

lemma newline_stripAnsi: "newline \<in> set (stripAnsi c) \<longleftrightarrow> newline \<in> set c"
  by (auto simp: stripAnsi_def)

lemma okCell_visible: "okCell c \<Longrightarrow> stripAnsi c = [visibleCell c]"
  by (cases "stripAnsi c") (simp_all add: okCell_def visibleCell_def)

lemma okCell_visible_no_newline: "okCell c \<Longrightarrow> visibleCell c \<noteq> newline"
proof
  assume ok: "okCell c" and "visibleCell c = newline"
  then have "newline \<in> set (stripAnsi c)" using okCell_visible [OF ok] by simp
  then show False using ok by (simp add: newline_stripAnsi okCell_def)
qed

lemma okCell_blank: "okCell [space]"
  by (simp add: okCell_def stripAnsi_def)

text \<open>A glyph: one character, not a styling sequence, a blank or a line break.\<close>

lemma okCell_chalk:
  assumes "stylingOnly env" and "length g = 1" and "stripAnsi g = g" and "newline \<notin> set g"
  shows "okCell (chalk env sts g)" and "visibleCell (chalk env sts g) = hd g"
proof -
  have s: "stripAnsi (chalk env sts g) = g"
    using assms(1,3) by (simp add: stylingOnly_def)
  have "newline \<notin> set (stripAnsi (chalk env sts g))" using s assms(4) by simp
  then have "newline \<notin> set (chalk env sts g)" by (simp add: newline_stripAnsi)
  then show "okCell (chalk env sts g)" using s assms(2) by (simp add: okCell_def)
  show "visibleCell (chalk env sts g) = hd g" by (simp add: visibleCell_def s)
qed

lemma chars_glyph:
  "length (dialHour (chars u)) = 1 \<and> stripAnsi (dialHour (chars u)) = dialHour (chars u) \<and>
     newline \<notin> set (dialHour (chars u)) \<and> hd (dialHour (chars u)) \<noteq> space"
  "length (dialMinute (chars u)) = 1 \<and> stripAnsi (dialMinute (chars u)) = dialMinute (chars u) \<and>
     newline \<notin> set (dialMinute (chars u)) \<and> hd (dialMinute (chars u)) \<noteq> space"
  "length (dialOther (chars u)) = 1 \<and> stripAnsi (dialOther (chars u)) = dialOther (chars u) \<and>
     newline \<notin> set (dialOther (chars u)) \<and> hd (dialOther (chars u)) \<noteq> space"
  "length (handHour (chars u)) = 1 \<and> stripAnsi (handHour (chars u)) = handHour (chars u) \<and>
     newline \<notin> set (handHour (chars u)) \<and> hd (handHour (chars u)) \<noteq> space"
  "length (handMinute (chars u)) = 1 \<and> stripAnsi (handMinute (chars u)) = handMinute (chars u) \<and>
     newline \<notin> set (handMinute (chars u)) \<and> hd (handMinute (chars u)) \<noteq> space"
  "length (handSecond (chars u)) = 1 \<and> stripAnsi (handSecond (chars u)) = handSecond (chars u) \<and>
     newline \<notin> set (handSecond (chars u)) \<and> hd (handSecond (chars u)) \<noteq> space"
  "length (center (chars u)) = 1 \<and> stripAnsi (center (chars u)) = center (chars u) \<and>
     newline \<notin> set (center (chars u)) \<and> hd (center (chars u)) \<noteq> space"
  by (simp_all add: chars_def stripAnsi_def)

lemma okCell_digit: "0 \<le> n \<Longrightarrow> n \<le> 9 \<Longrightarrow> okCell (toString n)"
proof -
  assume a: "0 \<le> n" "n \<le> 9"
  then have k: "nat n < 10" by simp
  have "toString n = [Ch (''0123456789'' ! nat n)]"
    using a k by (simp add: toString_def natToString_small)
  moreover have "''0123456789'' ! nat n \<noteq> CHR 0x0A"
    using digit_nth_cases [OF k] by auto
  ultimately show ?thesis by (simp add: okCell_def stripAnsi_def)
qed

subsection \<open>Every drawing step keeps the grid well formed\<close>

lemma gridOk_wf: "gridOk b \<Longrightarrow> wfBoard b"
  by (simp add: gridOk_def)

lemma gridOk_setCell:
  assumes "gridOk b" and "okCell v"
  shows "gridOk (setCell b y x v)"
proof -
  have cells: "okCell c" if "row \<in> set (setCell b y x v)" "c \<in> set row" for row c
  proof -
    from that(1) have "row \<in> insert ((b ! nat y)[nat x := v]) (set b)"
      unfolding setCell_def using set_update_subset_insert by fastforce
    then show ?thesis
    proof
      assume r: "row = (b ! nat y)[nat x := v]"
      show ?thesis
      proof (cases "nat y < length b")
        case True
        from that(2) r have "c \<in> insert v (set (b ! nat y))"
          using set_update_subset_insert by fastforce
        then show ?thesis using assms True by (auto simp: gridOk_def)
      next
        case False
        then have "setCell b y x v = b" by (simp add: setCell_def list_update_beyond)
        with that show ?thesis using assms(1) by (auto simp: gridOk_def)
      qed
    next
      assume "row \<in> set b"
      then show ?thesis using assms(1) that(2) by (auto simp: gridOk_def)
    qed
  qed
  show ?thesis
    using wfBoard_setCell [OF gridOk_wf [OF assms(1)]] cells by (auto simp: gridOk_def)
qed

lemma gridOk_fold:
  assumes "\<And>p b. p \<in> set ps \<Longrightarrow> gridOk b \<Longrightarrow> gridOk (f p b)" and "gridOk b"
  shows "gridOk (fold f ps b)"
  using assms by (induction ps arbitrary: b) simp_all

lemma gridOk_blank: "gridOk (replicate (nat sizeY) (replicate (nat sizeX) [space]))"
  using wfBoard_blank by (auto simp: gridOk_def okCell_blank)

lemma gridOk_dialStep:
  assumes "stylingOnly env" and "gridOk b"
  shows "gridOk (dialStep env (chars u) r b)"
  using assms chars_glyph [of u]
  by (simp add: dialStep_def Let_def gridOk_setCell okCell_chalk)

lemma gridOk_drawDial: "stylingOnly env \<Longrightarrow> gridOk b \<Longrightarrow> gridOk (drawDial env (chars u) b)"
  unfolding drawDial_def by (rule gridOk_fold) (simp_all add: gridOk_dialStep)

lemma numbers_range: "(num, i) \<in> set (zip numbers [0..<length numbers]) \<Longrightarrow> 1 \<le> num \<and> num \<le> 12"
  by (auto simp: numbers_def dest!: set_zip_leftD)

lemma gridOk_numberStep:
  assumes "gridOk b" and "1 \<le> num" and "num \<le> 12"
  shows "gridOk (numberStep env (num, i) b)"
proof -
  have small: "okCell (toString num)" if "\<not> num > 9"
    using that assms(2) by (intro okCell_digit) simp_all
  have tens: "okCell (toString (num div 10))"
    using assms(2,3) by (intro okCell_digit) simp_all
  have ones: "okCell (toString (jsrem num 10))"
    using assms(2,3) by (intro okCell_digit) (simp_all add: jsrem_nonneg)
  show ?thesis
    using assms(1) small tens ones
    by (simp add: numberStep_def Let_def gridOk_setCell)
qed

lemma gridOk_drawNumbers: "gridOk b \<Longrightarrow> gridOk (drawNumbers env b)"
  unfolding drawNumbers_def
proof (rule gridOk_fold)
  fix p b
  assume "p \<in> set (zip numbers [0..<length numbers])" and "gridOk b"
  then show "gridOk (numberStep env p b)"
    using numbers_range [of "fst p" "snd p"] gridOk_numberStep [of b "fst p" env "snd p"]
    by simp
qed

lemma gridOk_plot:
  assumes "gridOk b" and "okCell v"
  shows "gridOk (fold (\<lambda>yx b. case yx of (y, x) \<Rightarrow> if onBoard y x then setCell b y x v else b)
           pts b)"
  using assms(1) by (rule gridOk_fold [rotated]) (auto simp: gridOk_setCell assms(2))

lemma gridOk_analogBoard:
  assumes "stylingOnly env"
  shows "gridOk (analogBoard env dateOrMs isTimer useGlyphs)"
proof -
  obtain hours minutes seconds where hv: "handValues dateOrMs isTimer = (hours, minutes, seconds)"
    by (cases "handValues dateOrMs isTimer")
  note g = chars_glyph [of useGlyphs]
  show ?thesis
    unfolding analogBoard_def hv prod.case Let_def drawHand_def
    by (intro gridOk_setCell gridOk_plot gridOk_drawNumbers gridOk_drawDial gridOk_blank
        okCell_chalk assms) (simp_all add: g)
qed

subsection \<open>The sample chalk adds only styling\<close>

lemma stripAnsi_sgr [simp]: "stripAnsi (map (Sgr \<circ> f) sts) = []"
  by (induction sts) simp_all

lemma stripAnsi_ansiChalk: "stripAnsi (ansiChalk sts s) = stripAnsi s"
proof -
  have "stripAnsi (concat (map (\<lambda>c. if c = newline
          then map (Sgr \<circ> sgrClose) (rev sts) @ [newline] @ map (Sgr \<circ> sgrOpen) sts
          else [c]) s)) = stripAnsi s"
    by (induction s) simp_all
  then show ?thesis by (simp add: ansiChalk_def)
qed

lemma stylingOnly_sampleEnv: "stylingOnly sampleEnv"
  by (simp add: stylingOnly_def sampleEnv_def stripAnsi_ansiChalk)

subsection \<open>From the grid to the string\<close>

lemma concat_singletons: "concat (map (\<lambda>c. [f c]) row) = map f row"
  by (induction row) simp_all

lemma stripAnsi_row:
  assumes "\<forall>c\<in>set row. okCell c"
  shows "stripAnsi (concat row) = map visibleCell row"
  using assms by (induction row) (simp_all add: okCell_visible)

lemma row_no_newline:
  assumes "\<forall>c\<in>set row. okCell c"
  shows "newline \<notin> set (concat row)"
  using assms by (auto simp: okCell_def)

lemma visible_row_no_newline:
  assumes "\<forall>c\<in>set row. okCell c"
  shows "newline \<notin> set (map visibleCell row)"
proof
  assume "newline \<in> set (map visibleCell row)"
  then obtain c where c: "c \<in> set row" "visibleCell c = newline" by auto
  from c(1) assms have "okCell c" by simp
  then show False using c(2) okCell_visible_no_newline by blast
qed

lemma gridOk_lines:
  assumes "gridOk b"
  shows "split newline (join [newline] (map concat b)) = map concat b"
proof (rule split_join)
  show "map concat b \<noteq> []" using assms by (auto simp: gridOk_def wfBoard_def)
  show "\<forall>r\<in>set (map concat b). newline \<notin> set r"
    using assms row_no_newline by (auto simp: gridOk_def)
qed

lemma gridOk_visible_lines:
  assumes "gridOk b"
  shows "split newline (stripAnsi (join [newline] (map concat b))) = map (map visibleCell) b"
proof -
  have rows: "map stripAnsi (map concat b) = map (map visibleCell) b"
    using assms by (auto simp: gridOk_def stripAnsi_row)
  have "split newline (join [newline] (map (map visibleCell) b)) = map (map visibleCell) b"
  proof (rule split_join)
    show "map (map visibleCell) b \<noteq> []" using assms by (auto simp: gridOk_def wfBoard_def)
    show "\<forall>r\<in>set (map (map visibleCell) b). newline \<notin> set r"
      using assms visible_row_no_newline by (auto simp: gridOk_def)
  qed
  then show ?thesis by (simp only: stripAnsi_join rows)
qed

lemma analog_lines:
  assumes "stylingOnly env"
  shows "split newline (getAnalogClock env dateOrMs isTimer useGlyphs) =
           map concat (analogBoard env dateOrMs isTimer useGlyphs)"
  unfolding getAnalogClock_def by (rule gridOk_lines) (rule gridOk_analogBoard [OF assms])

lemma analog_line_count:
  assumes "stylingOnly env"
  shows "length (split newline (getAnalogClock env dateOrMs isTimer useGlyphs)) = 45"
  using gridOk_analogBoard [OF assms, of dateOrMs isTimer useGlyphs]
  by (simp add: analog_lines [OF assms] gridOk_def wfBoard_def)

lemma analog_line_width:
  assumes "stylingOnly env"
    and "l \<in> set (split newline (getAnalogClock env dateOrMs isTimer useGlyphs))"
  shows "jslength (stripAnsi l) = 90"
proof -
  let ?b = "analogBoard env dateOrMs isTimer useGlyphs"
  have ok: "gridOk ?b" by (rule gridOk_analogBoard [OF assms(1)])
  from assms(2) obtain row where row: "row \<in> set ?b" "l = concat row"
    by (auto simp: analog_lines [OF assms(1)])
  have cells: "\<forall>c\<in>set row. okCell c" using ok row(1) by (simp add: gridOk_def)
  have "length row = 90" using ok row(1) by (simp add: gridOk_def wfBoard_def)
  moreover have "jslength (stripAnsi l) = length (stripAnsi l)" by (rule jslength_stripAnsi)
  moreover have "length (stripAnsi l) = length row"
    by (simp only: row(2) stripAnsi_row [OF cells] length_map)
  ultimately show ?thesis by simp
qed

text \<open>
  Claim C9. With a chalk that adds only styling sequences, for every input the string
  that \<open>getAnalogClock\<close> returns has exactly 45 lines, and every line has visible
  length 90.
\<close>

theorem analog_grid_size:
  assumes "stylingOnly env"
  shows "length (split newline (getAnalogClock env dateOrMs isTimer useGlyphs)) = 45 \<and>
         (\<forall>l\<in>set (split newline (getAnalogClock env dateOrMs isTimer useGlyphs)).
            jslength (stripAnsi l) = 90)"
  using analog_line_count [OF assms] analog_line_width [OF assms] by blast

theorem analog_grid_size_witness:
  "stylingOnly sampleEnv \<and>
   length (split newline (getAnalogClock sampleEnv (NumberOf 65000) True True)) = 45 \<and>
   jslength (stripAnsi (split newline (getAnalogClock sampleEnv (NumberOf 65000) True True) ! 0))
     = 90"
proof -
  note t = analog_grid_size [OF stylingOnly_sampleEnv, of "NumberOf 65000" True True]
  then have "split newline (getAnalogClock sampleEnv (NumberOf 65000) True True) ! 0 \<in>
             set (split newline (getAnalogClock sampleEnv (NumberOf 65000) True True))"
    by (intro nth_mem) simp
  with t show ?thesis using stylingOnly_sampleEnv by blast
qed

subsection \<open>The two glyph sets\<close>

lemma nonBlank_analog:
  assumes "stylingOnly env"
  shows "nonBlank (getAnalogClock env dateOrMs isTimer useGlyphs) =
     {(y, x). y < 45 \<and> x < 90 \<and>
        visibleCell (analogBoard env dateOrMs isTimer useGlyphs ! y ! x) \<noteq> space}"
proof -
  let ?b = "analogBoard env dateOrMs isTimer useGlyphs"
  have ok: "gridOk ?b" by (rule gridOk_analogBoard [OF assms])
  then have len: "length ?b = 45" and rows: "\<And>y. y < 45 \<Longrightarrow> length (?b ! y) = 90"
    by (simp_all add: gridOk_def wfBoard_def)
  have vis: "split newline (stripAnsi (getAnalogClock env dateOrMs isTimer useGlyphs)) =
      map (map visibleCell) ?b"
    unfolding getAnalogClock_def by (rule gridOk_visible_lines [OF ok])
  show ?thesis
    unfolding nonBlank_def vis using len rows by auto
qed

lemma sameBlanks_setCell:
  assumes "sameBlanks a b" and "(visibleCell v = space) = (visibleCell w = space)"
  shows "sameBlanks (if onBoard y x then setCell a y x v else a)
                    (if onBoard y x then setCell b y x w else b)"
proof (cases "onBoard y x")
  case True
  have wa: "wfBoard a" and wb: "wfBoard b" using assms(1) by (simp_all add: sameBlanks_def)
  show ?thesis
    using assms True
    by (simp add: sameBlanks_def wfBoard_setCell setCell_nth [OF wa True] setCell_nth [OF wb True])
next
  case False
  then show ?thesis using assms(1) by simp
qed

lemma sameBlanks_setCell_on:
  assumes "sameBlanks a b" and "(visibleCell v = space) = (visibleCell w = space)"
    and "onBoard y x"
  shows "sameBlanks (setCell a y x v) (setCell b y x w)"
  using sameBlanks_setCell [OF assms(1,2), of y x] assms(3) by simp

lemma sameBlanks_fold:
  assumes "\<And>p a b. sameBlanks a b \<Longrightarrow> sameBlanks (f p a) (g p b)" and "sameBlanks a b"
  shows "sameBlanks (fold f ps a) (fold g ps b)"
  using assms(2) by (induction ps arbitrary: a b) (simp_all add: assms(1))

lemma visible_chalk_glyph:
  assumes "stylingOnly env" and "stripAnsi g = g"
  shows "visibleCell (chalk env sts g) = hd g"
  using assms by (simp add: visibleCell_def stylingOnly_def)

lemma sameBlanks_dialStep:
  assumes "stylingOnly env" and "sameBlanks a b"
  shows "sameBlanks (dialStep env (chars False) r a) (dialStep env (chars True) r b)"
  using assms(2) chars_glyph [of False] chars_glyph [of True]
  by (simp add: dialStep_def Let_def sameBlanks_setCell_on visible_chalk_glyph [OF assms(1)])

lemma sameBlanks_numberStep:
  assumes "sameBlanks a b"
  shows "sameBlanks (numberStep env p a) (numberStep env p b)"
proof -
  obtain num i where p: "p = (num, i)" by (cases p)
  let ?y = "roundSin env centerY (Degrees (int i * 30)) (of_int (radius - 2))"
  let ?x = "roundCos2 env centerX (Degrees (int i * 30)) (of_int (radius - 2))"
  have left: "onBoard ?y (?x - 1)" if "onBoard ?y ?x" "?x > 0"
    using that by (simp add: onBoard_def)
  show ?thesis
    using assms left
    by (simp add: p numberStep_def Let_def sameBlanks_setCell_on)
qed

lemma sameBlanks_plot:
  assumes "sameBlanks a b" and "(visibleCell v = space) = (visibleCell w = space)"
  shows "sameBlanks
     (fold (\<lambda>yx b. case yx of (y, x) \<Rightarrow> if onBoard y x then setCell b y x v else b) pts a)
     (fold (\<lambda>yx b. case yx of (y, x) \<Rightarrow> if onBoard y x then setCell b y x w else b) pts b)"
  using assms(1)
  by (rule sameBlanks_fold [rotated]) (auto simp: sameBlanks_setCell [OF _ assms(2)])

lemma sameBlanks_blank:
  "sameBlanks (replicate (nat sizeY) (replicate (nat sizeX) [space]))
              (replicate (nat sizeY) (replicate (nat sizeX) [space]))"
  using wfBoard_blank by (simp add: sameBlanks_def)

lemma sameBlanks_analogBoard:
  assumes "stylingOnly env"
  shows "sameBlanks (analogBoard env dateOrMs isTimer False)
                    (analogBoard env dateOrMs isTimer True)"
proof -
  obtain hours minutes seconds where hv: "handValues dateOrMs isTimer = (hours, minutes, seconds)"
    by (cases "handValues dateOrMs isTimer")
  note gF = chars_glyph [of False] and gT = chars_glyph [of True]
  note vis = visible_chalk_glyph [OF assms]
  have dial: "sameBlanks (drawDial env (chars False) a) (drawDial env (chars True) b)"
    if "sameBlanks a b" for a b
    unfolding drawDial_def using that
    by (rule sameBlanks_fold [rotated]) (rule sameBlanks_dialStep [OF assms])
  have nums: "sameBlanks (drawNumbers env a) (drawNumbers env b)" if "sameBlanks a b" for a b
    unfolding drawNumbers_def using that
    by (rule sameBlanks_fold [rotated]) (rule sameBlanks_numberStep)
  show ?thesis
    unfolding analogBoard_def hv prod.case Let_def drawHand_def
    by (intro sameBlanks_setCell_on sameBlanks_plot nums dial sameBlanks_blank center_onBoard)
      (simp_all add: vis gF gT)
qed

text \<open>
  Claim C8. With a chalk that adds only styling sequences, for every time point and
  mode the outputs of \<open>getAnalogClock\<close> with the standard and with the extended glyph
  set hold a character other than the blank at exactly the same positions of the
  stripped grid.
\<close>

theorem glyph_set_keeps_geometry:
  assumes "stylingOnly env"
  shows "nonBlank (getAnalogClock env dateOrMs isTimer False) =
         nonBlank (getAnalogClock env dateOrMs isTimer True)"
  using sameBlanks_analogBoard [OF assms, of dateOrMs isTimer]
  unfolding nonBlank_analog [OF assms] sameBlanks_def by auto

theorem glyph_set_keeps_geometry_witness:
  "stylingOnly sampleEnv \<and>
   nonBlank (getAnalogClock sampleEnv (NumberOf 65000) True False) =
   nonBlank (getAnalogClock sampleEnv (NumberOf 65000) True True)"
  using glyph_set_keeps_geometry [OF stylingOnly_sampleEnv, of "NumberOf 65000" True]
    stylingOnly_sampleEnv
  by simp

section \<open>Reachable states\<close>

lemma cachesOk_textSync:
  assumes "textSync env' = textSync env"
  shows "cachesOk env' st = cachesOk env st"
proof -
  have l: "renderedLines env' str font = renderedLines env str font" for str font
    unfolding renderedLines_def by (simp only: assms)
  have w: "renderedWidth env' str font = renderedWidth env str font" for str font
    unfolding renderedWidth_def by (simp only: l)
  have h: "renderedHeight env' str font = renderedHeight env str font" for str font
    unfolding renderedHeight_def by (simp only: l)
  have m: "metrics_spec env' font = metrics_spec env font" for font
    unfolding metrics_spec_def by (simp only: w h)
  show ?thesis unfolding cachesOk_def by (simp only: l m)
qed

lemma reachable_cachesOk: "reachable env st \<Longrightarrow> cachesOk env st"
proof (induction rule: reachable.induct)
  case reachable_start
  show ?case by (rule cachesOk_empty)
next
  case (reachable_render st env' data style label font isPaused useGlyphs)
  note same = cachesOk_textSync [OF reachable_render.hyps(2)]
  from reachable_render.IH have "cachesOk env' st" by (simp only: same)
  then have "cachesOk env' (snd (render env' data style label font isPaused useGlyphs st))"
    by (rule cachesOk_render)
  then show ?case by (simp only: same)
qed

section \<open>The older renderer draws the hands in the opposite order\<close>

lemma legacyAnalogBoard_cell:
  assumes "y < 45" and "x < 90"
    and "legacyHandValues dateOrMs isTimer = Some (hours, minutes, seconds)"
  shows "\<exists>b. legacyAnalogBoard env dateOrMs isTimer = Some b \<and>
     b ! y ! x =
       (if (int y, int x) = (centerY, centerX) then chalk env [White] [Uni 0x2295]
        else if (int y, int x) \<in> set (handPoints env (of_int seconds) 60 (9 / 10))
        then chalk env [Blue] (lit ''.'')
        else if (int y, int x) \<in> set (handPoints env (of_int minutes) 60 (3 / 4))
        then chalk env [Green, Bold] [Uni 0x25CF]
        else if (int y, int x) \<in> set (handPoints env (of_int hours + of_int minutes / 60) 12 (1 / 2))
        then chalk env [Red, Bold] [Uni 0x2588]
        else drawNumbers env
               (drawDial env legacyChars
                  (replicate (nat sizeY) (replicate (nat sizeX) [space]))) ! y ! x)"
proof -
  let ?b2 = "drawNumbers env (drawDial env legacyChars
               (replicate (nat sizeY) (replicate (nat sizeX) [space])))"
  let ?b3 = "drawHand env ?b2 (of_int hours + of_int minutes / 60) 12 (1 / 2) [Uni 0x2588]
               [Red, Bold]"
  let ?b4 = "drawHand env ?b3 (of_int minutes) 60 (3 / 4) [Uni 0x25CF] [Green, Bold]"
  let ?b5 = "drawHand env ?b4 (of_int seconds) 60 (9 / 10) (lit ''.'') [Blue]"
  have w2: "wfBoard ?b2" by (intro wfBoard_drawNumbers wfBoard_drawDial wfBoard_blank)
  have w3: "wfBoard ?b3" using w2 by (rule wfBoard_drawHand)
  have w4: "wfBoard ?b4" using w3 by (rule wfBoard_drawHand)
  have w5: "wfBoard ?b5" using w4 by (rule wfBoard_drawHand)
  have c: "(y = nat centerY \<and> x = nat centerX) \<longleftrightarrow> (int y, int x) = (centerY, centerX)"
    by (auto simp: centerY_def centerX_def sizeY_def sizeX_def)
  have b: "legacyAnalogBoard env dateOrMs isTimer =
           Some (setCell ?b5 centerY centerX (chalk env [White] [Uni 0x2295]))"
    by (simp add: legacyAnalogBoard_def assms(3) Let_def)
  show ?thesis
    unfolding b
    by (simp only: setCell_nth [OF w5 center_onBoard assms(1,2)] c
        drawHand_nth [OF w4 assms(1,2)] drawHand_nth [OF w3 assms(1,2)]
        drawHand_nth [OF w2 assms(1,2)] option.inject simp_thms ex_simps)
qed

section \<open>Examples\<close>

text \<open>
  The examples of the specification, run on the sample environment with a terminal
  of 40 columns and 20 rows and a chalk without colours.
\<close>

lemma example_formatTime:
  "formatTime \<lparr>getHours = 10, getMinutes = 0, getSeconds = 0\<rparr> = lit ''10:00:00''"
  by code_simp

lemma example_paused_timer:
  "split newline
     (fst (render smallEnv (NumberOf 65000) (lit ''text'') (Some (lit ''My Timer''))
             (lit ''Standard'') True False emptyCaches)) =
   replicate 8 [] @
   [lit ''                My Timer'', lit ''                 PAUSED '',
    lit ''                00:01:05  ''] @
   replicate 8 [] @
   [lit ''q: Quit | d: Digital | a: Analog | t: Text | r: Reset | space: Start/Pause'']"
  by code_simp

text \<open>
  At twelve o'clock all three hands run straight up. One cell above the centre the
  TypeScript renderer shows the hour hand, the older renderer the second hand.
\<close>

lemma example_orders_differ:
  "analogBoard sampleEnv (DateOf \<lparr>getHours = 12, getMinutes = 0, getSeconds = 0\<rparr>) False False
     ! 21 ! 45 = [Sgr 31, Sgr 1, Uni 0x2588, Sgr 22, Sgr 39]"
  "\<exists>b. legacyAnalogBoard sampleEnv
          (DateOf \<lparr>getHours = 12, getMinutes = 0, getSeconds = 0\<rparr>) False = Some b \<and>
        b ! 21 ! 45 = [Sgr 34, Ch (CHR ''.''), Sgr 39]"
proof -
  have hv: "handValues (DateOf \<lparr>getHours = 12, getMinutes = 0, getSeconds = 0\<rparr>) False = (0, 0, 0)"
    by (simp add: handValues_def jsrem_def)
  have lv: "legacyHandValues (DateOf \<lparr>getHours = 12, getMinutes = 0, getSeconds = 0\<rparr>) False
            = Some (0, 0, 0)"
    by (simp add: legacyHandValues_def jsrem_def)
  have h: "(21, 45) \<in> set (handPoints sampleEnv 0 12 (1 / 2))" by code_simp
  have s: "(21, 45) \<in> set (handPoints sampleEnv 0 60 (9 / 10))" by code_simp
  have c: "centerY = 22" "centerX = 45"
    by (simp_all add: centerY_def centerX_def sizeY_def sizeX_def)
  have red: "chalk sampleEnv [Red, Bold] [Uni 0x2588] = [Sgr 31, Sgr 1, Uni 0x2588, Sgr 22, Sgr 39]"
    by (simp add: sampleEnv_def ansiChalk_def)
  have blue: "chalk sampleEnv [Blue] [Ch (CHR ''.'')] = [Sgr 34, Ch (CHR ''.''), Sgr 39]"
    by (simp add: sampleEnv_def ansiChalk_def)
  show "analogBoard sampleEnv (DateOf \<lparr>getHours = 12, getMinutes = 0, getSeconds = 0\<rparr>) False
          False ! 21 ! 45 = [Sgr 31, Sgr 1, Uni 0x2588, Sgr 22, Sgr 39]"
    using analogBoard_cell [of 21 45 sampleEnv
        "DateOf \<lparr>getHours = 12, getMinutes = 0, getSeconds = 0\<rparr>" False False] h
    by (simp add: hv c chars_def red)
  show "\<exists>b. legacyAnalogBoard sampleEnv
          (DateOf \<lparr>getHours = 12, getMinutes = 0, getSeconds = 0\<rparr>) False = Some b \<and>
        b ! 21 ! 45 = [Sgr 34, Ch (CHR ''.''), Sgr 39]"
    using legacyAnalogBoard_cell [OF _ _ lv, of 21 45 sampleEnv] s
    by (simp add: c blue)
qed

end
